theory Spec2Isabelle
  imports Complex_Main "HOL-Library.Char_ord" "HOL-Library.List_Lexorder" "HOL-Library.Sublist"
begin

section \<open>Data model\<close>

text \<open>
  A shallow embedding of the ingestion-and-search core of the documentation server:
  the classes \<^verbatim>\<open>StorageService\<close>, \<^verbatim>\<open>ParserService\<close>, \<^verbatim>\<open>CrawlerService\<close> and \<^verbatim>\<open>SearchService\<close>
  of \<^verbatim>\<open>src/core/services\<close>.

  Conventions of the model.
  \<^item> Strings are Isabelle strings (lists of 8-bit characters); a \<^verbatim>\<open>Buffer\<close> is the
    same list and \<^verbatim>\<open>buffer.toString('utf-8')\<close> the identity. The model coincides with the
    program on ASCII text.
  \<^item> A \<^verbatim>\<open>Date\<close> is its \<^verbatim>\<open>getTime()\<close>: milliseconds since the epoch, an \<^typ>\<open>int\<close>.
  \<^item> An optional field is an \<^typ>\<open>'a option\<close>; \<^verbatim>\<open>undefined\<close> and \<^verbatim>\<open>null\<close> are \<^const>\<open>None\<close>.
  \<^item> A thrown exception is \<^const>\<open>Inl\<close> of its message; \<^const>\<open>Inr\<close> is a normal return.
  \<^item> Calls into Node and third-party libraries (hashing, \<^verbatim>\<open>path\<close>, the file system,
    gray-matter, markdown-it, cheerio, pdf-parse, \<^verbatim>\<open>JSON.parse\<close>, Fuse.js) are parameters
    of the model: the theorems hold for every behaviour of these libraries.
  \<^item> A table of the storage service is the list of its rows in insertion order. The
    only SQL statement that fails in the model is the one that violates the foreign
    key of the status table.
\<close>

type_synonym timestamp = int

text \<open>Dynamically typed values (front matter, PDF info, parsed JSON). Numbers are
  integers in the model.\<close>

datatype json =
    JNull
  | JBool bool
  | JNum int
  | JStr string
  | JArr "json list"
  | JObj "(string \<times> json) list"

text \<open>\<^verbatim>\<open>Document['type']\<close>: \<^verbatim>\<open>z.enum(['markdown', 'html', 'pdf', 'text', 'json'])\<close>.\<close>

datatype document_type = markdown | html | pdf | text_type | json_type

text \<open>\<^verbatim>\<open>DocumentSchema\<close>. The fields \<^verbatim>\<open>id\<close>, \<^verbatim>\<open>type\<close> and \<^verbatim>\<open>size\<close> clash with constants of
  HOL, so every field carries the prefix \<open>d_\<close>.\<close>

record Document =
  d_id :: string
  d_title :: string
  d_content :: string
  d_type :: document_type
  d_sourceId :: string
  d_sourcePath :: string
  d_metadata :: "(string \<times> json) list option"
  d_tags :: "string list option"
  d_createdAt :: timestamp
  d_updatedAt :: timestamp
  d_size :: "int option"
  d_checksum :: "string option"

text \<open>\<^verbatim>\<open>SourceConfigSchema\<close> and its \<^verbatim>\<open>filters\<close> object. The \<^verbatim>\<open>type\<close> of a source is kept
  as the string the \<^verbatim>\<open>switch\<close> of the crawler inspects.\<close>

record Filters =
  f_include :: "string list option"
  f_exclude :: "string list option"
  f_maxDepth :: "int option"
  f_maxSize :: "int option"

record SourceConfig =
  s_id :: string
  s_name :: string
  s_type :: string
  s_url :: string
  s_enabled :: bool
  s_schedule :: "string option"
  s_lastCrawled :: "timestamp option"
  s_settings :: "json option"
  s_filters :: "Filters option"

text \<open>\<^verbatim>\<open>SourceStatusSchema\<close>.\<close>

datatype run_status = idle | crawling | success | error

record SourceStatus =
  st_sourceId :: string
  st_status :: run_status
  st_lastRun :: "timestamp option"
  st_lastError :: "string option"
  st_documentsFound :: nat
  st_documentsProcessed :: nat
  st_documentsSkipped :: nat
  st_duration :: "int option"

text \<open>\<^verbatim>\<open>DocumentStatsSchema\<close>.\<close>

record DocumentStats =
  totalDocuments :: nat
  documentsByType :: "(document_type \<times> nat) list"
  documentsBySource :: "(string \<times> nat) list"
  totalSize :: int
  lastUpdated :: timestamp

section \<open>The storage service\<close>

text \<open>The three tables. \<open>status_log\<close> is a ghost field: the sequence of rows written to
  the status table by \<^verbatim>\<open>updateSourceStatus\<close>, oldest first. No operation reads it.\<close>

record storage =
  documents :: "Document list"
  sources :: "SourceConfig list"
  source_status :: "SourceStatus list"
  status_log :: "SourceStatus list"

definition empty_storage :: storage where
  "empty_storage = \<lparr>documents = [], sources = [], source_status = [], status_log = []\<rparr>"

text \<open>JavaScript's \<^verbatim>\<open>x || null\<close> on an optional number or string: \<^verbatim>\<open>0\<close> and \<^verbatim>\<open>''\<close> are falsy.\<close>

definition num_or_null :: "int option \<Rightarrow> int option" where
  "num_or_null x = (case x of None \<Rightarrow> None | Some n \<Rightarrow> if n = 0 then None else Some n)"

definition str_or_null :: "string option \<Rightarrow> string option" where
  "str_or_null x = (case x of None \<Rightarrow> None | Some s \<Rightarrow> if s = [] then None else Some s)"

text \<open>The row \<^verbatim>\<open>saveDocument\<close> binds and \<^verbatim>\<open>rowToDocument\<close> reads back:
  \<^verbatim>\<open>doc.size || null\<close> and \<^verbatim>\<open>doc.checksum || null\<close>; metadata and tags pass through JSON.\<close>

definition document_row :: "Document \<Rightarrow> Document" where
  "document_row doc =
     doc\<lparr>d_size := num_or_null (d_size doc), d_checksum := str_or_null (d_checksum doc)\<rparr>"

text \<open>\<^verbatim>\<open>INSERT OR REPLACE INTO documents\<close>: the row with the same primary key goes, the
  new row is added.\<close>

definition saveDocument :: "Document \<Rightarrow> storage \<Rightarrow> storage" where
  "saveDocument doc st =
     st\<lparr>documents := filter (\<lambda>r. d_id r \<noteq> d_id doc) (documents st) @ [document_row doc]\<rparr>"

text \<open>\<^verbatim>\<open>SELECT * FROM documents WHERE id = ?\<close>.\<close>

definition getDocument :: "string \<Rightarrow> storage \<Rightarrow> Document option" where
  "getDocument i st = find (\<lambda>r. d_id r = i) (documents st)"

text \<open>\<^verbatim>\<open>SELECT * FROM documents WHERE source_id = ? ORDER BY updated_at DESC\<close>. SQL leaves
  the order of rows with equal \<^verbatim>\<open>updated_at\<close> open; the model keeps them in table order.\<close>

definition getDocumentsBySource :: "string \<Rightarrow> storage \<Rightarrow> Document list" where
  "getDocumentsBySource sid st =
     sort_key (\<lambda>r. - d_updatedAt r) (filter (\<lambda>r. d_sourceId r = sid) (documents st))"

text \<open>\<^verbatim>\<open>DELETE FROM documents WHERE id = ?\<close>, returning \<^verbatim>\<open>result.changes > 0\<close>.\<close>

definition deleteDocument :: "string \<Rightarrow> storage \<Rightarrow> bool \<times> storage" where
  "deleteDocument i st =
     (\<exists>r \<in> set (documents st). d_id r = i,
      st\<lparr>documents := filter (\<lambda>r. d_id r \<noteq> i) (documents st)\<rparr>)"

text \<open>SQL aggregates: \<^verbatim>\<open>MAX\<close> of no rows is \<^verbatim>\<open>NULL\<close>; \<^verbatim>\<open>COUNT(*) ... GROUP BY\<close>.\<close>

fun sql_max :: "int list \<Rightarrow> int option" where
  "sql_max [] = None"
| "sql_max (x # xs) = (case sql_max xs of None \<Rightarrow> Some x | Some m \<Rightarrow> Some (max x m))"

definition group_count :: "('r \<Rightarrow> 'k) \<Rightarrow> 'r list \<Rightarrow> ('k \<times> nat) list" where
  "group_count key rows =
     map (\<lambda>k. (k, length (filter (\<lambda>r. key r = k) rows))) (remdups (map key rows))"

text \<open>\<^verbatim>\<open>getDocumentStats\<close>. \<open>now\<close> is the value \<^verbatim>\<open>new Date()\<close> has when the last line
  evaluates it: \<^verbatim>\<open>last_updated ? new Date(last_updated) : new Date()\<close>, where \<^verbatim>\<open>NULL\<close> and
  \<^verbatim>\<open>0\<close> are falsy. The second component tells whether the clock was read.\<close>

definition getDocumentStats :: "timestamp \<Rightarrow> storage \<Rightarrow> DocumentStats \<times> bool" where
  "getDocumentStats now st =
     (let rows = documents st;
          last_updated = num_or_null (sql_max (map d_updatedAt rows))
      in (\<lparr>totalDocuments = length rows,
           documentsByType = group_count d_type rows,
           documentsBySource = group_count d_sourceId rows,
           totalSize = sum_list (map (\<lambda>r. case d_size r of None \<Rightarrow> 0 | Some n \<Rightarrow> n) rows),
           lastUpdated = (case last_updated of Some t \<Rightarrow> t | None \<Rightarrow> now)\<rparr>,
          last_updated = None))"

text \<open>\<^verbatim>\<open>saveSource\<close> (\<^verbatim>\<open>INSERT OR REPLACE INTO sources\<close>) with the row conversions
  \<^verbatim>\<open>schedule || null\<close> and \<^verbatim>\<open>lastCrawled?.getTime() || null\<close>.\<close>

definition source_row :: "SourceConfig \<Rightarrow> SourceConfig" where
  "source_row src =
     src\<lparr>s_schedule := str_or_null (s_schedule src),
         s_lastCrawled := num_or_null (s_lastCrawled src)\<rparr>"

definition saveSource :: "SourceConfig \<Rightarrow> storage \<Rightarrow> storage" where
  "saveSource src st =
     st\<lparr>sources := filter (\<lambda>r. s_id r \<noteq> s_id src) (sources st) @ [source_row src]\<rparr>"

definition getSource :: "string \<Rightarrow> storage \<Rightarrow> SourceConfig option" where
  "getSource i st = find (\<lambda>r. s_id r = i) (sources st)"

text \<open>\<^verbatim>\<open>SELECT * FROM sources ORDER BY name\<close>.\<close>

definition getAllSources :: "storage \<Rightarrow> SourceConfig list" where
  "getAllSources st = sort_key s_name (sources st)"

text \<open>\<^verbatim>\<open>updateSourceStatus\<close> (\<^verbatim>\<open>INSERT OR REPLACE INTO source_status\<close>) with the row
  conversions \<^verbatim>\<open>lastRun?.getTime() || null\<close>, \<^verbatim>\<open>lastError || null\<close>, \<^verbatim>\<open>duration || null\<close>.
  The table is declared with \<^verbatim>\<open>FOREIGN KEY (source_id) REFERENCES sources (id)\<close>, and
  better-sqlite3 enforces foreign keys: when no source row has the id of the status
  the statement throws and writes nothing.\<close>

definition status_row :: "SourceStatus \<Rightarrow> SourceStatus" where
  "status_row s =
     s\<lparr>st_lastRun := num_or_null (st_lastRun s),
       st_lastError := str_or_null (st_lastError s),
       st_duration := num_or_null (st_duration s)\<rparr>"

definition insert_status :: "SourceStatus \<Rightarrow> storage \<Rightarrow> storage" where
  "insert_status s st =
     st\<lparr>source_status :=
          filter (\<lambda>r. st_sourceId r \<noteq> st_sourceId s) (source_status st) @ [status_row s],
        status_log := status_log st @ [status_row s]\<rparr>"

definition updateSourceStatus :: "SourceStatus \<Rightarrow> storage \<Rightarrow> string + storage" where
  "updateSourceStatus s st =
     (case getSource (st_sourceId s) st of
        None \<Rightarrow> Inl ''FOREIGN KEY constraint failed''
      | Some source \<Rightarrow> Inr (insert_status s st))"

definition getSourceStatus :: "string \<Rightarrow> storage \<Rightarrow> SourceStatus option" where
  "getSourceStatus sid st = find (\<lambda>r. st_sourceId r = sid) (source_status st)"

text \<open>\<^verbatim>\<open>deleteSource\<close> runs three statements in this order:
  \<^verbatim>\<open>DELETE FROM documents WHERE source_id = ?\<close>,
  \<^verbatim>\<open>DELETE FROM source_status WHERE source_id = ?\<close>,
  \<^verbatim>\<open>DELETE FROM sources WHERE id = ?\<close>, and returns \<^verbatim>\<open>changes > 0\<close> of the last one.\<close>

definition delete_documents_of :: "string \<Rightarrow> storage \<Rightarrow> storage" where
  "delete_documents_of i st = st\<lparr>documents := filter (\<lambda>r. d_sourceId r \<noteq> i) (documents st)\<rparr>"

definition delete_status_of :: "string \<Rightarrow> storage \<Rightarrow> storage" where
  "delete_status_of i st =
     st\<lparr>source_status := filter (\<lambda>r. st_sourceId r \<noteq> i) (source_status st)\<rparr>"

definition delete_source_row :: "string \<Rightarrow> storage \<Rightarrow> bool \<times> storage" where
  "delete_source_row i st =
     (\<exists>r \<in> set (sources st). s_id r = i,
      st\<lparr>sources := filter (\<lambda>r. s_id r \<noteq> i) (sources st)\<rparr>)"

definition deleteSource :: "string \<Rightarrow> storage \<Rightarrow> bool \<times> storage" where
  "deleteSource i st = delete_source_row i (delete_status_of i (delete_documents_of i st))"

section \<open>JavaScript string helpers\<close>

text \<open>The whitespace of \<^verbatim>\<open>\s\<close> and \<^verbatim>\<open>trim()\<close> that exists among 8-bit characters: space, tab,
  line feed, vertical tab, form feed, carriage return.\<close>

definition is_space :: "char \<Rightarrow> bool" where
  "is_space c \<longleftrightarrow> c \<in> {CHR '' '', CHR 0x09, CHR 0x0A, CHR 0x0B, CHR 0x0C, CHR 0x0D}"

definition js_trim :: "string \<Rightarrow> string" where
  "js_trim s = rev (dropWhile is_space (rev (dropWhile is_space s)))"

text \<open>\<^verbatim>\<open>toLowerCase()\<close> on ASCII letters.\<close>

definition lower_char :: "char \<Rightarrow> char" where
  "lower_char c =
     (if CHR ''A'' \<le> c \<and> c \<le> CHR ''Z'' then char_of (of_char c + (32::nat)) else c)"

definition toLowerCase :: "string \<Rightarrow> string" where
  "toLowerCase s = map lower_char s"

text \<open>\<^verbatim>\<open>xs.join(sep)\<close>.\<close>

fun js_join :: "string \<Rightarrow> string list \<Rightarrow> string" where
  "js_join sep [] = []"
| "js_join sep [x] = x"
| "js_join sep (x # y # ys) = x @ sep @ js_join sep (y # ys)"

text \<open>\<^verbatim>\<open>s.split(/\s+/)\<close>: the pieces between maximal runs of whitespace; a run at either
  end leaves an empty piece there, and the empty string splits into one empty piece.\<close>

function split_ws_acc :: "string \<Rightarrow> string \<Rightarrow> string list" where
  "split_ws_acc cur [] = [rev cur]"
| "split_ws_acc cur (c # cs) =
     (if is_space c then rev cur # split_ws_acc [] (dropWhile is_space cs)
      else split_ws_acc (c # cur) cs)"
  by pat_completeness auto
termination
  by (relation "measure (\<lambda>(cur, s). length s)") (auto simp: le_imp_less_Suc length_dropWhile_le)

definition split_ws :: "string \<Rightarrow> string list" where
  "split_ws s = split_ws_acc [] s"

text \<open>\<^verbatim>\<open>s.split(sep)\<close> for a one-character separator.\<close>

fun split_char_acc :: "char \<Rightarrow> string \<Rightarrow> string \<Rightarrow> string list" where
  "split_char_acc sep cur [] = [rev cur]"
| "split_char_acc sep cur (c # cs) =
     (if c = sep then rev cur # split_char_acc sep [] cs else split_char_acc sep (c # cur) cs)"

definition split_char :: "char \<Rightarrow> string \<Rightarrow> string list" where
  "split_char sep s = split_char_acc sep [] s"

text \<open>\<^verbatim>\<open>s.replace(/\s+/g, ' ')\<close>.\<close>

function collapse_ws :: "string \<Rightarrow> string" where
  "collapse_ws [] = []"
| "collapse_ws (c # cs) =
     (if is_space c then CHR '' '' # collapse_ws (dropWhile is_space cs)
      else c # collapse_ws cs)"
  by pat_completeness auto
termination
  by (relation "measure length") (auto simp: le_imp_less_Suc length_dropWhile_le)

text \<open>\<^verbatim>\<open>hay.indexOf(needle)\<close>: the first position where \<open>needle\<close> starts, or \<open>-1\<close>.\<close>

fun indexOf_from :: "int \<Rightarrow> string \<Rightarrow> string \<Rightarrow> int" where
  "indexOf_from k [] needle = (if needle = [] then k else -1)"
| "indexOf_from k (c # cs) needle =
     (if take (length needle) (c # cs) = needle then k else indexOf_from (k + 1) cs needle)"

definition js_indexOf :: "string \<Rightarrow> string \<Rightarrow> int" where
  "js_indexOf hay needle = indexOf_from 0 hay needle"

text \<open>\<^verbatim>\<open>s.substring(a, b)\<close>: both ends are clamped to the string and swapped when out of
  order.\<close>

definition js_substring :: "string \<Rightarrow> int \<Rightarrow> int \<Rightarrow> string" where
  "js_substring s a b =
     (let n = int (length s);
          a' = min (max a 0) n;
          b' = min (max b 0) n
      in take (nat (max a' b' - min a' b')) (drop (nat (min a' b')) s))"

text \<open>\<^verbatim>\<open>xs.slice(0, k)\<close>: a negative \<open>k\<close> counts from the end.\<close>

definition js_slice0 :: "'a list \<Rightarrow> int \<Rightarrow> 'a list" where
  "js_slice0 xs k = (if 0 \<le> k then take (nat k) xs else take (length xs - nat (- k)) xs)"

section \<open>The search service\<close>

text \<open>What Fuse.js returns for one hit (\<^verbatim>\<open>FuseResult<Document>\<close>): the item, its distance
  score and the matched spans (\<^verbatim>\<open>indices\<close> are inclusive \<^verbatim>\<open>[start, end]\<close> pairs into
  \<^verbatim>\<open>value\<close>).\<close>

record FuseMatch =
  m_indices :: "(int \<times> int) list option"
  m_value :: "string option"

record FuseResult =
  item :: Document
  fr_score :: "real option"
  fr_matches :: "FuseMatch list option"

text \<open>\<^verbatim>\<open>DocumentSearchResult\<close>.\<close>

record DocumentSearchResult =
  document :: Document
  score :: real
  highlights :: "string list"

text \<open>\<^verbatim>\<open>SearchOptions\<close>; \<^verbatim>\<open>includeScore\<close> and \<^verbatim>\<open>includeMatches\<close> are never read.\<close>

record SearchOptions =
  o_limit :: "int option"
  o_threshold :: "real option"
  o_sourceIds :: "string list option"
  o_types :: "string list option"
  o_tags :: "string list option"

definition no_options :: SearchOptions where
  "no_options =
     \<lparr>o_limit = None, o_threshold = None, o_sourceIds = None, o_types = None, o_tags = None\<rparr>"

text \<open>The Fuse.js engine: \<open>fz docs threshold query limit\<close> is what
  \<^verbatim>\<open>new Fuse(docs, {keys, threshold, ...}).search(query, {limit})\<close> returns, best match first.
  The keys, weights and remaining options are the same constants at both construction
  sites, so an instance is determined by its collection and threshold.\<close>

type_synonym fuse_engine = "Document list \<Rightarrow> real \<Rightarrow> string \<Rightarrow> int \<Rightarrow> FuseResult list"

text \<open>The private fields of \<^verbatim>\<open>SearchService\<close>. \<open>fuse\<close> is \<^const>\<open>None\<close> for \<^verbatim>\<open>null\<close>, otherwise
  the collection the default instance was built over.\<close>

record SearchService =
  fuse :: "Document list option"
  ss_documents :: "Document list"
  lastIndexUpdate :: timestamp

definition new_SearchService :: SearchService where
  "new_SearchService = \<lparr>fuse = None, ss_documents = [], lastIndexUpdate = 0\<rparr>"

text \<open>The clock: \<open>clock t\<close> is the value of the \<open>t\<close>-th evaluation of \<^verbatim>\<open>new Date()\<close> or
  \<^verbatim>\<open>Date.now()\<close>; the number of evaluations so far is threaded through the calls.\<close>

type_synonym clock = "nat \<Rightarrow> timestamp"

text \<open>\<^verbatim>\<open>rebuildIndex\<close>: the documents of every source of the \<open>sources\<close> table, source by
  source; a fresh default Fuse instance; one reading of the clock.\<close>

definition rebuildIndex :: "clock \<Rightarrow> storage \<Rightarrow> SearchService \<times> nat \<Rightarrow> SearchService \<times> nat" where
  "rebuildIndex clk st = (\<lambda>(svc, t).
     (let docs = concat (map (\<lambda>src. getDocumentsBySource (s_id src) st) (getAllSources st))
      in (\<lparr>fuse = Some docs, ss_documents = docs, lastIndexUpdate = clk t\<rparr>, Suc t)))"

text \<open>\<^verbatim>\<open>createHighlight(text, start, end, contextLength = 50)\<close>.\<close>

definition createHighlight :: "string \<Rightarrow> int \<Rightarrow> int \<Rightarrow> string" where
  "createHighlight txt start end' =
     (let highlightStart = max 0 (start - 50);
          highlightEnd = min (int (length txt)) (end' + 50);
          h0 = js_substring txt highlightStart highlightEnd;
          h1 = (if highlightStart > 0 then ''...'' @ h0 else h0);
          h2 = (if highlightEnd < int (length txt) then h1 @ ''...'' else h1)
      in js_trim h2)"

text \<open>\<^verbatim>\<open>extractContentHighlight(content, query)\<close>: the loop over the query words returns at
  the first word that yields a highlight longer than 10 characters.\<close>

fun content_highlight_words :: "string \<Rightarrow> string list \<Rightarrow> string option" where
  "content_highlight_words content [] = None"
| "content_highlight_words content (word # ws) =
     (let index = js_indexOf (toLowerCase content) word
      in if index \<noteq> -1 then
           (let start = max 0 (index - 50);
                end' = min (int (length content)) (index + int (length word) + 50);
                highlight = js_trim (js_substring content start end')
            in if length highlight > 10
               then Some (if start > 0 then ''...'' @ highlight @ ''...'' else highlight)
               else content_highlight_words content ws)
         else content_highlight_words content ws)"

definition extractContentHighlight :: "string \<Rightarrow> string \<Rightarrow> string option" where
  "extractContentHighlight content query =
     content_highlight_words content (split_ws (toLowerCase query))"

text \<open>\<^verbatim>\<open>extractHighlights(result, query)\<close>: one highlight per reported span (empty ones
  dropped), else one from the content; at most three.\<close>

definition match_highlights :: "FuseMatch \<Rightarrow> string list" where
  "match_highlights m =
     (case (m_indices m, m_value m) of
        (Some ixs, Some v) \<Rightarrow>
          (if v = [] then []
           else filter (\<lambda>h. h \<noteq> []) (map (\<lambda>(start, end'). createHighlight v start end') ixs))
      | _ \<Rightarrow> [])"

definition extractHighlights :: "FuseResult \<Rightarrow> string \<Rightarrow> string list" where
  "extractHighlights result query =
     (let hs = (case fr_matches result of None \<Rightarrow> [] | Some ms \<Rightarrow> concat (map match_highlights ms));
          hs' = (if hs = []
                 then (case extractContentHighlight (d_content (item result)) query of
                         None \<Rightarrow> [] | Some h \<Rightarrow> if h = [] then [] else [h])
                 else hs)
      in take 3 hs')"

text \<open>The strings of \<^verbatim>\<open>Document['type']\<close>, compared with the entries of \<^verbatim>\<open>options.types\<close>.\<close>

fun type_name :: "document_type \<Rightarrow> string" where
  "type_name markdown = ''markdown''"
| "type_name html = ''html''"
| "type_name pdf = ''pdf''"
| "type_name text_type = ''text''"
| "type_name json_type = ''json''"

text \<open>The three filters of \<^verbatim>\<open>search\<close>, each applied only when its list is present and
  non-empty, in the order of the source.\<close>

definition filter_sourceIds :: "string list option \<Rightarrow> FuseResult list \<Rightarrow> FuseResult list" where
  "filter_sourceIds sourceIds rs =
     (case sourceIds of
        Some ids \<Rightarrow> if length ids > 0 then filter (\<lambda>r. d_sourceId (item r) \<in> set ids) rs else rs
      | None \<Rightarrow> rs)"

definition filter_types :: "string list option \<Rightarrow> FuseResult list \<Rightarrow> FuseResult list" where
  "filter_types types rs =
     (case types of
        Some tys \<Rightarrow>
          if length tys > 0 then filter (\<lambda>r. type_name (d_type (item r)) \<in> set tys) rs else rs
      | None \<Rightarrow> rs)"

definition filter_tags :: "string list option \<Rightarrow> FuseResult list \<Rightarrow> FuseResult list" where
  "filter_tags tags rs =
     (case tags of
        Some tgs \<Rightarrow>
          if length tgs > 0
          then filter (\<lambda>r. case d_tags (item r) of None \<Rightarrow> False
                            | Some ts \<Rightarrow> list_ex (\<lambda>tag. tag \<in> set tgs) ts) rs
          else rs
      | None \<Rightarrow> rs)"

definition post_filter :: "SearchOptions \<Rightarrow> FuseResult list \<Rightarrow> FuseResult list" where
  "post_filter opts rs =
     filter_tags (o_tags opts) (filter_types (o_types opts) (filter_sourceIds (o_sourceIds opts) rs))"

definition to_search_result :: "string \<Rightarrow> FuseResult \<Rightarrow> DocumentSearchResult" where
  "to_search_result query result =
     \<lparr>document = item result,
      score = 1 - (case fr_score result of None \<Rightarrow> 0 | Some x \<Rightarrow> x),
      highlights = extractHighlights result query\<rparr>"

definition search_limit :: "SearchOptions \<Rightarrow> int" where
  "search_limit opts = (case o_limit opts of None \<Rightarrow> 50 | Some l \<Rightarrow> l)"

definition search_threshold :: "SearchOptions \<Rightarrow> real" where
  "search_threshold opts = (case o_threshold opts of None \<Rightarrow> 0.3 | Some x \<Rightarrow> x)"

text \<open>The staleness check that opens \<^verbatim>\<open>search\<close>: the statistics are read (the clock too,
  when \<^verbatim>\<open>lastUpdated\<close> falls back to \<^verbatim>\<open>new Date()\<close>) and the index is rebuilt when
  \<^verbatim>\<open>stats.lastUpdated.getTime() > this.lastIndexUpdate\<close>.\<close>

definition refresh_index :: "clock \<Rightarrow> storage \<Rightarrow> SearchService \<times> nat \<Rightarrow> SearchService \<times> nat" where
  "refresh_index clk st = (\<lambda>(svc, t).
     (let (stats, clock_read) = getDocumentStats (clk t) st;
          t1 = (if clock_read then Suc t else t)
      in if lastUpdated stats > lastIndexUpdate svc then rebuildIndex clk st (svc, t1)
         else (svc, t1)))"

text \<open>\<^verbatim>\<open>search(query, options)\<close>. The Fuse instance searched is the default one, or a new
  one over \<^verbatim>\<open>this.documents\<close> when the threshold is not \<^verbatim>\<open>0.3\<close>.\<close>

definition search ::
  "fuse_engine \<Rightarrow> clock \<Rightarrow> storage \<Rightarrow> string \<Rightarrow> SearchOptions \<Rightarrow> SearchService \<times> nat
     \<Rightarrow> DocumentSearchResult list \<times> SearchService \<times> nat" where
  "search fz clk st query opts state =
     (let (svc, t) = refresh_index clk st state
      in case fuse svc of
           None \<Rightarrow> ([], svc, t)
         | Some indexed \<Rightarrow>
             if js_trim query = [] then ([], svc, t)
             else
               (let limit = search_limit opts;
                    threshold = search_threshold opts;
                    collection = (if threshold \<noteq> 0.3 then ss_documents svc else indexed);
                    fuseResults = fz collection threshold query (limit * 2);
                    filteredResults = post_filter opts fuseResults
                in (map (to_search_result query) (js_slice0 filteredResults limit), svc, t)))"

text \<open>\<^verbatim>\<open>getSimilarDocuments(documentId, limit = 10)\<close>.\<close>

definition similar_query :: "Document \<Rightarrow> string" where
  "similar_query doc =
     js_join '' '' (d_title doc # (case d_tags doc of None \<Rightarrow> [] | Some ts \<Rightarrow> ts))"

definition getSimilarDocuments ::
  "fuse_engine \<Rightarrow> clock \<Rightarrow> storage \<Rightarrow> string \<Rightarrow> int \<Rightarrow> SearchService \<times> nat
     \<Rightarrow> DocumentSearchResult list \<times> SearchService \<times> nat" where
  "getSimilarDocuments fz clk st documentId limit state =
     (case getDocument documentId st of
        None \<Rightarrow> ([], state)
      | Some doc \<Rightarrow>
          (let (results, state') =
                 search fz clk st (similar_query doc) (no_options\<lparr>o_limit := Some (limit + 1)\<rparr>) state
           in (filter (\<lambda>result. d_id (document result) \<noteq> documentId) results, state')))"

section \<open>The environment: Node and library calls\<close>

text \<open>What \<^verbatim>\<open>fs.stat\<close> returns, as far as the program reads it.\<close>

record Stats =
  isDirectory :: bool
  fs_size :: int
  mtime :: timestamp
  birthtime :: timestamp

text \<open>A \<^verbatim>\<open>Dirent\<close> of \<^verbatim>\<open>fs.readdir(dir, {withFileTypes: true})\<close>: its name and whether
  \<^verbatim>\<open>isDirectory()\<close>, \<^verbatim>\<open>isFile()\<close> or neither holds.\<close>

datatype entry_kind = directory_entry | file_entry | other_entry

type_synonym Dirent = "string \<times> entry_kind"

text \<open>The file system the calls of one run see. Each call either throws or returns.\<close>

record file_system =
  stat :: "string \<Rightarrow> string + Stats"
  readdir :: "string \<Rightarrow> string + Dirent list"
  readFile :: "string \<Rightarrow> string + string"

text \<open>The result of gray-matter, read through the types \<^verbatim>\<open>ParseResult\<close> declares: the
  \<^verbatim>\<open>title\<close>, \<^verbatim>\<open>tags\<close> and \<^verbatim>\<open>keywords\<close> entries of the front matter, the whole front matter, and
  the body.\<close>

record GrayMatter =
  gm_title :: "string option"
  gm_tags :: "string list option"
  gm_keywords :: "string list option"
  gm_data :: json
  gm_content :: string

text \<open>What \<^verbatim>\<open>parseHTML\<close> queries from the cheerio document after \<^verbatim>\<open>script\<close> and \<^verbatim>\<open>style\<close>
  elements are removed.\<close>

record HtmlMeta =
  meta_name :: "string option"
  meta_property :: "string option"
  meta_http_equiv :: "string option"
  meta_content :: "string option"

record HtmlDom =
  title_text :: string
  first_h1_text :: string
  body_text :: string
  all_text :: string
  metas :: "HtmlMeta list"
  heading_texts :: "string list"
  link_hrefs :: "string list"

text \<open>What \<^verbatim>\<open>parsePDF\<close> reads from the result of pdf-parse.\<close>

record PdfData =
  pdf_info_Title :: "string option"
  pdf_text :: string
  pdf_info :: json
  pdf_numpages :: int
  pdf_version :: string

text \<open>The library calls. \<open>regexp_test src s\<close> is \<^verbatim>\<open>new RegExp(src, 'i').test(s)\<close> of the
  JavaScript engine, consulted only for the tests the model does not interpret itself
  (see \<open>matchGlob\<close> below). \<open>require_not_defined\<close> is the message of the \<^verbatim>\<open>ReferenceError\<close>
  that evaluating the identifier \<^verbatim>\<open>require\<close> throws in an ES module, where it is not
  bound; the wording depends on the version of Node.\<close>

record node_env =
  sha256_hex :: "string \<Rightarrow> string"
  md5_hex :: "string \<Rightarrow> string"
  path_join :: "string \<Rightarrow> string \<Rightarrow> string"
  path_relative :: "string \<Rightarrow> string \<Rightarrow> string"
  path_extname :: "string \<Rightarrow> string"
  path_basename :: "string \<Rightarrow> string"
  path_basename_ext :: "string \<Rightarrow> string \<Rightarrow> string"
  path_dirname :: "string \<Rightarrow> string"
  regexp_test :: "string \<Rightarrow> string \<Rightarrow> string + bool"
  matter :: "string \<Rightarrow> string + GrayMatter"
  md_render :: "string \<Rightarrow> string + string"
  cheerio_load :: "string \<Rightarrow> string + HtmlDom"
  pdf_parse :: "string \<Rightarrow> string + PdfData"
  json_parse :: "string \<Rightarrow> string + json"
  require_not_defined :: string

section \<open>The parser\<close>

text \<open>\<^verbatim>\<open>ParseResult\<close>; every parser of the source sets \<^verbatim>\<open>metadata\<close>.\<close>

record ParseResult =
  pr_title :: string
  pr_content :: string
  pr_metadata :: "(string \<times> json) list"
  pr_tags :: "string list option"

text \<open>Decimal rendering of a number: \<^verbatim>\<open>String(n)\<close> and \<^verbatim>\<open>`${n}`\<close> for an integer.\<close>

function show_nat :: "nat \<Rightarrow> string" where
  "show_nat n =
     (if n < 10 then [char_of (48 + n)] else show_nat (n div 10) @ [char_of (48 + n mod 10)])"
  by pat_completeness auto
termination
  by (relation "measure id") auto

definition show_int :: "int \<Rightarrow> string" where
  "show_int i = (if i < 0 then CHR ''-'' # show_nat (nat (- i)) else show_nat (nat i))"

text \<open>JavaScript truthiness and \<^verbatim>\<open>String(v)\<close> of a dynamically typed value.\<close>

fun truthy :: "json \<Rightarrow> bool" where
  "truthy JNull = False"
| "truthy (JBool b) = b"
| "truthy (JNum n) = (n \<noteq> 0)"
| "truthy (JStr s) = (s \<noteq> [])"
| "truthy (JArr xs) = True"
| "truthy (JObj kvs) = True"

fun js_String :: "json \<Rightarrow> string" where
  "js_String JNull = ''null''"
| "js_String (JBool b) = (if b then ''true'' else ''false'')"
| "js_String (JNum n) = show_int n"
| "js_String (JStr s) = s"
| "js_String (JArr xs) = js_join '','' (map (\<lambda>x. if x = JNull then [] else js_String x) xs)"
| "js_String (JObj kvs) = ''[object Object]''"

text \<open>Assignment \<^verbatim>\<open>obj[key] = value\<close> on an object kept as the list of its entries.\<close>

fun obj_set :: "string \<Rightarrow> 'v \<Rightarrow> (string \<times> 'v) list \<Rightarrow> (string \<times> 'v) list" where
  "obj_set k v [] = [(k, v)]"
| "obj_set k v ((k', v') # kvs) = (if k' = k then (k, v) # kvs else (k', v') # obj_set k v kvs)"

text \<open>Object spread \<^verbatim>\<open>{...a, ...b}\<close>.\<close>

definition obj_spread :: "(string \<times> 'v) list \<Rightarrow> (string \<times> 'v) list \<Rightarrow> (string \<times> 'v) list" where
  "obj_spread a b = fold (\<lambda>(k, v). obj_set k v) b a"

text \<open>\<^verbatim>\<open>parseText\<close>.\<close>

definition parseText :: "string \<Rightarrow> ParseResult" where
  "parseText content =
     (let lines = split_char CHR 0x0A content;
          title = js_trim (hd lines);
          cleanContent = js_trim (collapse_ws content)
      in \<lparr>pr_title = (if length title < 100 then title else []),
          pr_content = cleanContent,
          pr_metadata = [(''lineCount'', JNum (int (length lines))),
                         (''wordCount'', JNum (int (length (split_ws cleanContent))))],
          pr_tags = None\<rparr>)"

text \<open>\<^verbatim>\<open>jsonToSearchableText\<close>; the key text is \<^verbatim>\<open>key.replace(/[_-]/g, ' ')\<close>.\<close>

definition key_text :: "string \<Rightarrow> string" where
  "key_text k = map (\<lambda>c. if c = CHR ''_'' \<or> c = CHR ''-'' then CHR '' '' else c) k"

fun jsonToSearchableText :: "json \<Rightarrow> string" where
  "jsonToSearchableText JNull = []"
| "jsonToSearchableText (JBool b) = js_String (JBool b)"
| "jsonToSearchableText (JNum n) = js_String (JNum n)"
| "jsonToSearchableText (JStr s) = s"
| "jsonToSearchableText (JArr xs) = js_join '' '' (map jsonToSearchableText xs)"
| "jsonToSearchableText (JObj kvs) =
     js_join '' '' (map (\<lambda>kv. key_text (fst kv) @ '': '' @ jsonToSearchableText (snd kv)) kvs)"

text \<open>Property access \<^verbatim>\<open>data.key\<close> on the result of \<^verbatim>\<open>JSON.parse\<close>: a \<^verbatim>\<open>TypeError\<close> on
  \<^verbatim>\<open>null\<close>, the entry of an object, \<^verbatim>\<open>undefined\<close> otherwise. \<^verbatim>\<open>Object.keys(data)\<close>.\<close>

definition js_property :: "json \<Rightarrow> string \<Rightarrow> string + json option" where
  "js_property data k =
     (case data of
        JNull \<Rightarrow> Inl (''Cannot read properties of null (reading '' @ k @ '')'')
      | JObj kvs \<Rightarrow> Inr (map_of kvs k)
      | _ \<Rightarrow> Inr None)"

definition object_keys :: "json \<Rightarrow> string list" where
  "object_keys data =
     (case data of
        JObj kvs \<Rightarrow> map fst kvs
      | JArr xs \<Rightarrow> map (\<lambda>i. show_nat i) [0..<length xs]
      | JStr s \<Rightarrow> map (\<lambda>i. show_nat i) [0..<length s]
      | _ \<Rightarrow> [])"

text \<open>\<^verbatim>\<open>a || b\<close> where \<open>a\<close> is a property that may be \<^verbatim>\<open>undefined\<close>.\<close>

definition or_else :: "json option \<Rightarrow> json option \<Rightarrow> json option" where
  "or_else a b = (case a of Some v \<Rightarrow> if truthy v then Some v else b | None \<Rightarrow> b)"

text \<open>The body of the \<^verbatim>\<open>try\<close> of \<^verbatim>\<open>parseJSON\<close>, and \<^verbatim>\<open>parseJSON\<close>: any exception falls back
  to \<^verbatim>\<open>parseText\<close>.\<close>

definition parseJSON_try :: "node_env \<Rightarrow> string \<Rightarrow> string + ParseResult" where
  "parseJSON_try env content =
     (case json_parse env content of
        Inl e \<Rightarrow> Inl e
      | Inr data \<Rightarrow>
          (case js_property data ''title'' of
             Inl e \<Rightarrow> Inl e
           | Inr t \<Rightarrow>
               (let n = (case js_property data ''name'' of Inr x \<Rightarrow> x | Inl _ \<Rightarrow> None);
                    i = (case js_property data ''id'' of Inr x \<Rightarrow> x | Inl _ \<Rightarrow> None);
                    title = (case or_else t (or_else n (or_else i None)) of
                               Some v \<Rightarrow> v | None \<Rightarrow> JStr ''JSON Document'')
                in Inr \<lparr>pr_title = js_String title,
                        pr_content = jsonToSearchableText data,
                        pr_metadata = [(''originalData'', data), (''type'', JStr ''json''),
                                       (''keys'', JArr (map JStr (object_keys data)))],
                        pr_tags = None\<rparr>)))"

definition parseJSON :: "node_env \<Rightarrow> string \<Rightarrow> ParseResult" where
  "parseJSON env content =
     (case parseJSON_try env content of Inl e \<Rightarrow> parseText content | Inr r \<Rightarrow> r)"

text \<open>\<^verbatim>\<open>parsePDF\<close>: pdf-parse inside a \<^verbatim>\<open>try\<close>; the \<^verbatim>\<open>catch\<close> builds the placeholder result.\<close>

definition parsePDF :: "node_env \<Rightarrow> string \<Rightarrow> ParseResult" where
  "parsePDF env buffer =
     (case pdf_parse env buffer of
        Inr data \<Rightarrow>
          (let title0 = (case pdf_info_Title data of Some t \<Rightarrow> t | None \<Rightarrow> []);
               title = (if title0 = [] \<and> pdf_text data \<noteq> []
                        then (let firstLine = hd (split_char CHR 0x0A (pdf_text data))
                              in if length firstLine < 100 then js_trim firstLine else [])
                        else title0)
           in \<lparr>pr_title = title,
               pr_content = js_trim (collapse_ws (pdf_text data)),
               pr_metadata = [(''info'', pdf_info data), (''numpages'', JNum (pdf_numpages data)),
                              (''version'', JStr (pdf_version data))],
               pr_tags = None\<rparr>)
      | Inl e \<Rightarrow>
          \<lparr>pr_title = ''PDF Document'',
           pr_content = ''[PDF file - '' @ show_nat (length buffer) @ '' bytes]'',
           pr_metadata = [(''size'', JNum (int (length buffer))), (''type'', JStr ''pdf''),
                          (''parseError'', JStr e)],
           pr_tags = None\<rparr>)"

text \<open>\<^verbatim>\<open>parseHTML\<close>: an exception of cheerio is not caught here.\<close>

definition first_truthy :: "string option list \<Rightarrow> string option" where
  "first_truthy xs = (case filter (\<lambda>x. x \<noteq> None \<and> x \<noteq> Some []) xs of [] \<Rightarrow> None | x # _ \<Rightarrow> x)"

definition html_meta_entries :: "HtmlMeta list \<Rightarrow> (string \<times> json) list" where
  "html_meta_entries ms =
     fold (\<lambda>m acc.
             (case (first_truthy [meta_name m, meta_property m, meta_http_equiv m],
                    first_truthy [meta_content m]) of
                (Some name, Some content) \<Rightarrow> obj_set name (JStr content) acc
              | _ \<Rightarrow> acc)) ms []"

definition parseHTML :: "node_env \<Rightarrow> string \<Rightarrow> string + ParseResult" where
  "parseHTML env content =
     (case cheerio_load env content of
        Inl e \<Rightarrow> Inl e
      | Inr page \<Rightarrow>
          (let title = (if title_text page \<noteq> [] then title_text page
                        else if first_h1_text page \<noteq> [] then first_h1_text page else []);
               bodyText = (if body_text page \<noteq> [] then body_text page else all_text page);
               cleanText = js_trim (collapse_ws bodyText);
               metadata = html_meta_entries (metas page);
               tags = (case map_of metadata ''keywords'' of
                         Some (JStr keywords) \<Rightarrow> Some (map js_trim (split_char CHR '','' keywords))
                       | _ \<Rightarrow> None)
           in Inr \<lparr>pr_title = js_trim title,
                   pr_content = cleanText,
                   pr_metadata = obj_spread metadata
                     [(''headings'', JArr (map (\<lambda>h. JStr (js_trim h)) (heading_texts page))),
                      (''links'', JArr (map JStr (link_hrefs page)))],
                   pr_tags = tags\<rparr>))"

text \<open>\<^verbatim>\<open>markdownContent.match(/^#\s+(.+)$/m)\<close>, trimmed: the first line that starts with
  \<^verbatim>\<open>#\<close> followed by whitespace decides; the whitespace run may cross line ends, and the
  title is the rest of the line where the run stops. A run that reaches the end of the
  text leaves the empty title.\<close>

fun first_heading :: "bool \<Rightarrow> string \<Rightarrow> string" where
  "first_heading at_line_start [] = []"
| "first_heading at_line_start (c # cs) =
     (if at_line_start \<and> c = CHR ''#'' \<and> cs \<noteq> [] \<and> is_space (hd cs)
      then js_trim (takeWhile (\<lambda>x. \<not> (x = CHR 0x0A \<or> x = CHR 0x0D)) (dropWhile is_space cs))
      else first_heading (c = CHR 0x0A \<or> c = CHR 0x0D) cs)"

text \<open>\<^verbatim>\<open>s.replace(/<[^>]*>/g, ' ')\<close>.\<close>

function strip_tags :: "string \<Rightarrow> string" where
  "strip_tags [] = []"
| "strip_tags (c # cs) =
     (if c = CHR ''<'' \<and> CHR ''>'' \<in> set cs
      then CHR '' '' # strip_tags (tl (dropWhile (\<lambda>x. x \<noteq> CHR ''>'') cs))
      else c # strip_tags cs)"
  by pat_completeness auto
termination
proof (relation "measure length")
  show "wf (measure length)" by simp
next
  fix c :: char and cs :: string
  have "length (dropWhile (\<lambda>x. x \<noteq> CHR ''>'') cs) \<le> length cs"
    by (rule length_dropWhile_le)
  then have "length (tl (dropWhile (\<lambda>x. x \<noteq> CHR ''>'') cs)) \<le> length cs"
    by simp
  then show "(tl (dropWhile (\<lambda>x. x \<noteq> CHR ''>'') cs), c # cs) \<in> measure length"
    by simp
next
  fix c :: char and cs :: string
  show "(cs, c # cs) \<in> measure length" by simp
qed

text \<open>\<^verbatim>\<open>parseMarkdown\<close>: exceptions of gray-matter and markdown-it are not caught here.\<close>

definition parseMarkdown :: "node_env \<Rightarrow> string \<Rightarrow> string + ParseResult" where
  "parseMarkdown env content =
     (case matter env content of
        Inl e \<Rightarrow> Inl e
      | Inr parsed \<Rightarrow>
          (let markdownContent = gm_content parsed;
               title0 = (case gm_title parsed of Some t \<Rightarrow> t | None \<Rightarrow> []);
               title = (if title0 = [] then first_heading True markdownContent else title0)
           in case md_render env markdownContent of
                Inl e \<Rightarrow> Inl e
              | Inr rendered \<Rightarrow>
                  (let plainText = js_trim (collapse_ws (strip_tags rendered))
                   in Inr \<lparr>pr_title = title,
                           pr_content = plainText,
                           pr_metadata = [(''frontmatter'', gm_data parsed),
                                          (''originalMarkdown'', JStr markdownContent),
                                          (''wordCount'', JNum (int (length (split_ws plainText))))],
                           pr_tags = (case gm_tags parsed of Some ts \<Rightarrow> Some ts
                                      | None \<Rightarrow> gm_keywords parsed)\<rparr>)))"

text \<open>The \<^verbatim>\<open>switch\<close> of \<^verbatim>\<open>parseFile\<close> on the lower-cased extension.\<close>

definition parse_by_extension ::
  "node_env \<Rightarrow> string \<Rightarrow> string \<Rightarrow> string + (ParseResult \<times> document_type)" where
  "parse_by_extension env ext buffer =
     (if ext = ''.md'' \<or> ext = ''.markdown'' then
        (case parseMarkdown env buffer of Inl e \<Rightarrow> Inl e | Inr r \<Rightarrow> Inr (r, markdown))
      else if ext = ''.html'' \<or> ext = ''.htm'' then
        (case parseHTML env buffer of Inl e \<Rightarrow> Inl e | Inr r \<Rightarrow> Inr (r, html))
      else if ext = ''.pdf'' then Inr (parsePDF env buffer, pdf)
      else if ext = ''.txt'' then Inr (parseText buffer, text_type)
      else if ext = ''.json'' then Inr (parseJSON env buffer, json_type)
      else Inr (parseText buffer, text_type))"

text \<open>The body of the \<^verbatim>\<open>try\<close> of \<^verbatim>\<open>parseFile\<close>. \<open>now\<close> is the value of \<^verbatim>\<open>new Date()\<close>, which is
  evaluated after the parsers returned.\<close>

definition parseFile_try ::
  "node_env \<Rightarrow> file_system \<Rightarrow> timestamp \<Rightarrow> string \<Rightarrow> string \<Rightarrow> string + Document" where
  "parseFile_try env fs now filePath sourceId =
     (case stat fs filePath of
        Inl e \<Rightarrow> Inl e
      | Inr stats \<Rightarrow>
          (let ext = toLowerCase (path_extname env filePath)
           in case readFile fs filePath of
                Inl e \<Rightarrow> Inl e
              | Inr buffer \<Rightarrow>
                  (let checksum = md5_hex env buffer
                   in case parse_by_extension env ext buffer of
                        Inl e \<Rightarrow> Inl e
                      | Inr (parseResult, documentType) \<Rightarrow>
                          Inr \<lparr>d_id = sha256_hex env (sourceId @ '':'' @ filePath),
                               d_title = (if pr_title parseResult \<noteq> [] then pr_title parseResult
                                          else path_basename_ext env filePath ext),
                               d_content = pr_content parseResult,
                               d_type = documentType,
                               d_sourceId = sourceId,
                               d_sourcePath = filePath,
                               d_metadata = Some (obj_spread (pr_metadata parseResult)
                                 [(''fileName'', JStr (path_basename env filePath)),
                                  (''extension'', JStr ext),
                                  (''directory'', JStr (path_dirname env filePath))]),
                               d_tags = pr_tags parseResult,
                               d_createdAt = birthtime stats,
                               d_updatedAt = (if mtime stats > now then now else mtime stats),
                               d_size = Some (fs_size stats),
                               d_checksum = Some checksum\<rparr>)))"

text \<open>\<^verbatim>\<open>parseFile(filePath, sourceId)\<close>: the \<^verbatim>\<open>catch\<close> logs the error and returns \<^verbatim>\<open>null\<close>.\<close>

definition parseFile ::
  "node_env \<Rightarrow> file_system \<Rightarrow> timestamp \<Rightarrow> string \<Rightarrow> string \<Rightarrow> Document option" where
  "parseFile env fs now filePath sourceId =
     (case parseFile_try env fs now filePath sourceId of Inl e \<Rightarrow> None | Inr doc \<Rightarrow> Some doc)"

text \<open>\<^verbatim>\<open>canParse(filePath)\<close>.\<close>

definition supportedExtensions :: "string list" where
  "supportedExtensions = [''.md'', ''.markdown'', ''.html'', ''.htm'', ''.pdf'', ''.txt'', ''.json'']"

definition canParse :: "node_env \<Rightarrow> string \<Rightarrow> bool" where
  "canParse env filePath \<longleftrightarrow> toLowerCase (path_extname env filePath) \<in> set supportedExtensions"

section \<open>The crawler: glob matching and filters\<close>

text \<open>\<^verbatim>\<open>s.replace(/c/g, r)\<close> for a single character \<open>c\<close>.\<close>

definition replace_char :: "char \<Rightarrow> string \<Rightarrow> string \<Rightarrow> string" where
  "replace_char c r s = concat (map (\<lambda>x. if x = c then r else [x]) s)"

text \<open>The regular expression source \<^verbatim>\<open>matchGlob\<close> builds from a pattern:
  \<^verbatim>\<open>pattern.replace(/\./g, '\\.').replace(/\*/g, '.*').replace(/\?/g, '.')\<close>,
  the three replacements one after the other.\<close>

definition glob_regex_source :: "string \<Rightarrow> string" where
  "glob_regex_source pattern =
     replace_char CHR ''?'' ''.''
       (replace_char CHR ''*'' ''.*''
          (replace_char CHR ''.'' [CHR 0x5C, CHR ''.''] pattern))"

text \<open>The fragment of JavaScript regular expressions the model interprets: a literal
  character, \<^verbatim>\<open>\.\<close>, \<^verbatim>\<open>.\<close> and \<^verbatim>\<open>.*\<close>. Every source that holds another syntax character
  is outside the fragment.\<close>

datatype rx = RChar char | RAny | RStar

definition regex_syntax_char :: "char \<Rightarrow> bool" where
  "regex_syntax_char c \<longleftrightarrow>
     c \<in> {CHR 0x5C, CHR ''^'', CHR ''$'', CHR ''.'', CHR ''*'', CHR ''+'', CHR ''?'', CHR ''('',
          CHR '')'', CHR ''['', CHR '']'', CHR ''{'', CHR ''}'', CHR ''|''}"

fun parse_rx :: "string \<Rightarrow> rx list option" where
  "parse_rx [] = Some []"
| "parse_rx (c # cs) =
     (if c = CHR 0x5C then
        (case cs of
           d # ds \<Rightarrow> if d = CHR ''.'' then map_option (Cons (RChar CHR ''.'')) (parse_rx ds) else None
         | [] \<Rightarrow> None)
      else if c = CHR ''.'' then
        (case cs of
           d # ds \<Rightarrow> if d = CHR ''*'' then map_option (Cons RStar) (parse_rx ds)
                     else map_option (Cons RAny) (parse_rx cs)
         | [] \<Rightarrow> Some [RAny])
      else if regex_syntax_char c then None
      else map_option (Cons (RChar c)) (parse_rx cs))"

text \<open>The model interprets a test itself only when pattern and path are ASCII. Without
  the \<^verbatim>\<open>s\<close> flag \<^verbatim>\<open>.\<close> matches every character but a line terminator; among ASCII
  characters these are line feed and carriage return (the others, U+2028 and U+2029,
  are not ASCII). With the \<^verbatim>\<open>i\<close> flag two characters match when their canonical
  (upper-case) forms agree; among ASCII characters only the letters \<^verbatim>\<open>a\<close> to \<^verbatim>\<open>z\<close> change.\<close>

definition ascii :: "string \<Rightarrow> bool" where
  "ascii s \<longleftrightarrow> list_all (\<lambda>c. of_char c < (128 :: nat)) s"

definition line_terminator :: "char \<Rightarrow> bool" where
  "line_terminator c \<longleftrightarrow> c = CHR 0x0A \<or> c = CHR 0x0D"

definition canonicalize :: "char \<Rightarrow> char" where
  "canonicalize c =
     (if CHR ''a'' \<le> c \<and> c \<le> CHR ''z'' then char_of (of_char c - (32::nat)) else c)"

text \<open>\<^verbatim>\<open>^...$\<close>: the whole string is matched, by backtracking over \<^verbatim>\<open>.*\<close>.\<close>

fun rx_match :: "rx list \<Rightarrow> string \<Rightarrow> bool" where
  "rx_match [] s = (s = [])"
| "rx_match (RChar c # r) [] = False"
| "rx_match (RChar c # r) (x # xs) = (canonicalize x = canonicalize c \<and> rx_match r xs)"
| "rx_match (RAny # r) [] = False"
| "rx_match (RAny # r) (x # xs) = (\<not> line_terminator x \<and> rx_match r xs)"
| "rx_match (RStar # r) [] = rx_match r []"
| "rx_match (RStar # r) (x # xs) =
     (rx_match r (x # xs) \<or> (\<not> line_terminator x \<and> rx_match (RStar # r) xs))"

text \<open>\<^verbatim>\<open>matchGlob(path, pattern)\<close>: \<^verbatim>\<open>new RegExp(`^${regexPattern}$`, 'i').test(path)\<close>. The
  constructor throws on a malformed source. When pattern and path are ASCII and the
  source lies in the fragment, the test is interpreted by \<open>rx_match\<close>; every other test
  (a character that is not ASCII in the pattern or in the path, another syntax
  character in the pattern) is left to the engine.\<close>

definition matchGlob :: "node_env \<Rightarrow> string \<Rightarrow> string \<Rightarrow> string + bool" where
  "matchGlob env path pattern =
     (case (if ascii pattern \<and> ascii path then parse_rx (glob_regex_source pattern) else None) of
        Some r \<Rightarrow> Inr (rx_match r path)
      | None \<Rightarrow> regexp_test env (''^'' @ glob_regex_source pattern @ ''$'') path)"

text \<open>\<^verbatim>\<open>patterns.some(pattern => this.matchGlob(relativePath, pattern))\<close>: stops at the first
  match; an exception leaves the loop.\<close>

fun some_matchGlob :: "node_env \<Rightarrow> string \<Rightarrow> string list \<Rightarrow> string + bool" where
  "some_matchGlob env path [] = Inr False"
| "some_matchGlob env path (pattern # ps) =
     (case matchGlob env path pattern of
        Inl e \<Rightarrow> Inl e
      | Inr b \<Rightarrow> if b then Inr True else some_matchGlob env path ps)"

text \<open>\<^verbatim>\<open>shouldProcessPath(relativePath, filters)\<close>.\<close>

definition shouldProcessPath :: "node_env \<Rightarrow> string \<Rightarrow> Filters option \<Rightarrow> string + bool" where
  "shouldProcessPath env relativePath filters =
     (case filters of
        None \<Rightarrow> Inr True
      | Some f \<Rightarrow>
          (case (case f_include f of
                   Some inc \<Rightarrow> if length inc > 0 then some_matchGlob env relativePath inc else Inr True
                 | None \<Rightarrow> Inr True) of
             Inl e \<Rightarrow> Inl e
           | Inr included \<Rightarrow>
               if \<not> included then Inr False
               else
                 (case (case f_exclude f of
                          Some exc \<Rightarrow> if length exc > 0 then some_matchGlob env relativePath exc
                                      else Inr False
                        | None \<Rightarrow> Inr False) of
                    Inl e \<Rightarrow> Inl e
                  | Inr excluded \<Rightarrow> if excluded then Inr False else Inr True)))"

section \<open>The crawler\<close>

text \<open>\<^verbatim>\<open>CrawlResult\<close>.\<close>

record CrawlResult =
  documentsFound :: nat
  documentsProcessed :: nat
  documentsSkipped :: nat
  errors :: "string list"

text \<open>What a run changes besides its result: the store and the number of clock readings.\<close>

record world =
  store :: storage
  ticks :: nat

type_synonym crawl_state = "CrawlResult \<times> world"

text \<open>\<^verbatim>\<open>result.documentsSkipped++\<close>.\<close>

definition skip :: "crawl_state \<Rightarrow> crawl_state" where
  "skip = (\<lambda>(result, w). (result\<lparr>documentsSkipped := Suc (documentsSkipped result)\<rparr>, w))"

text \<open>The inner \<^verbatim>\<open>catch\<close> of \<^verbatim>\<open>crawlDirectory\<close> (lines 180 to 184): the error is recorded
  and the file is counted as skipped.\<close>

definition file_error :: "string \<Rightarrow> string \<Rightarrow> crawl_state \<Rightarrow> crawl_state" where
  "file_error fullPath e = (\<lambda>(result, w).
     (result\<lparr>errors := errors result @ [''Error processing file '' @ fullPath @ '': '' @ e],
             documentsSkipped := Suc (documentsSkipped result)\<rparr>, w))"

text \<open>The branch of \<^verbatim>\<open>crawlDirectory\<close> for an entry that is a file (lines 143 to 184), all
  of it inside the inner \<^verbatim>\<open>try\<close>. A file that \<^verbatim>\<open>fs.stat\<close> finds, that is not larger than
  \<^verbatim>\<open>maxSize\<close> and that has a supported extension is counted in \<^verbatim>\<open>documentsFound\<close>. The next
  statement, line 161, evaluates \<^verbatim>\<open>require('crypto')\<close>. The services are ES modules
  (\<^verbatim>\<open>import\<close> declarations with \<^verbatim>\<open>.js\<close> specifiers; the entry point reads \<^verbatim>\<open>import.meta.url\<close>),
  and an ES module binds no identifier \<^verbatim>\<open>require\<close>: the evaluation throws a
  \<^verbatim>\<open>ReferenceError\<close>, which the inner \<^verbatim>\<open>catch\<close> records. The statements after line 161
  (the look-up of the stored document, the comparison of its \<^verbatim>\<open>updatedAt\<close> with the
  modification time, \<^verbatim>\<open>parseFile\<close> and \<^verbatim>\<open>saveDocument\<close>, lines 165 to 178) are never
  reached.\<close>

definition process_file ::
  "node_env \<Rightarrow> file_system \<Rightarrow> SourceConfig \<Rightarrow> int \<Rightarrow> string \<Rightarrow> crawl_state \<Rightarrow> crawl_state" where
  "process_file env fs source maxSize fullPath = (\<lambda>(result, w).
     (case stat fs fullPath of
        Inl e \<Rightarrow> file_error fullPath e (result, w)
      | Inr stats \<Rightarrow>
          if fs_size stats > maxSize then skip (result, w)
          else if \<not> canParse env fullPath then skip (result, w)
          else file_error fullPath (require_not_defined env)
                 (result\<lparr>documentsFound := Suc (documentsFound result)\<rparr>, w)))"

text \<open>\<^verbatim>\<open>s.replace(pat, rep)\<close> with a string pattern: the first occurrence only.\<close>

fun replace_first :: "string \<Rightarrow> string \<Rightarrow> string \<Rightarrow> string" where
  "replace_first pat rep [] = (if pat = [] then rep else [])"
| "replace_first pat rep (c # cs) =
     (if take (length pat) (c # cs) = pat then rep @ drop (length pat) (c # cs)
      else c # replace_first pat rep cs)"

definition root_path :: "SourceConfig \<Rightarrow> string" where
  "root_path source = replace_first ''file://'' [] (s_url source)"

text \<open>The body of the \<^verbatim>\<open>for\<close> loop of \<^verbatim>\<open>crawlDirectory\<close> for one entry; \<open>recurse\<close> is the
  recursive call for a sub-directory. The first component of the result is the
  exception that leaves the loop, if any: only the filter check can throw here.\<close>

definition crawl_entry ::
  "node_env \<Rightarrow> file_system \<Rightarrow> SourceConfig \<Rightarrow> int \<Rightarrow> (string \<Rightarrow> crawl_state \<Rightarrow> crawl_state)
     \<Rightarrow> string \<Rightarrow> Dirent \<Rightarrow> crawl_state \<Rightarrow> string option \<times> crawl_state" where
  "crawl_entry env fs source maxSize recurse dirPath entry st =
     (let fullPath = path_join env dirPath (fst entry);
          relativePath = path_relative env (root_path source) fullPath
      in case shouldProcessPath env relativePath (s_filters source) of
           Inl e \<Rightarrow> (Some e, st)
         | Inr ok \<Rightarrow>
             if \<not> ok then (None, skip st)
             else
               (case snd entry of
                  directory_entry \<Rightarrow> (None, recurse fullPath st)
                | file_entry \<Rightarrow> (None, process_file env fs source maxSize fullPath st)
                | other_entry \<Rightarrow> (None, st)))"

text \<open>The \<^verbatim>\<open>for\<close> loop: entries in order, until one throws.\<close>

fun crawl_entries ::
  "(Dirent \<Rightarrow> crawl_state \<Rightarrow> string option \<times> crawl_state) \<Rightarrow> Dirent list \<Rightarrow> crawl_state
     \<Rightarrow> string option \<times> crawl_state" where
  "crawl_entries step [] st = (None, st)"
| "crawl_entries step (entry # entries) st =
     (case step entry st of
        (Some e, st') \<Rightarrow> (Some e, st')
      | (None, st') \<Rightarrow> crawl_entries step entries st')"

text \<open>The outer \<^verbatim>\<open>catch\<close> of \<^verbatim>\<open>crawlDirectory\<close>.\<close>

definition directory_error :: "string \<Rightarrow> string \<Rightarrow> crawl_state \<Rightarrow> crawl_state" where
  "directory_error dirPath e = (\<lambda>(result, w).
     (result\<lparr>errors := errors result @ [''Error reading directory '' @ dirPath @ '': '' @ e]\<rparr>, w))"

text \<open>\<^verbatim>\<open>crawlDirectory(dirPath, source, result, currentDepth, maxDepth, maxSize)\<close>.\<close>

function crawlDirectory ::
  "node_env \<Rightarrow> file_system \<Rightarrow> SourceConfig \<Rightarrow> int \<Rightarrow> int \<Rightarrow> string \<Rightarrow> int \<Rightarrow> crawl_state
     \<Rightarrow> crawl_state" where
  "crawlDirectory env fs source maxDepth maxSize dirPath currentDepth st =
     (if currentDepth \<ge> maxDepth then st
      else
        (case readdir fs dirPath of
           Inl e \<Rightarrow> directory_error dirPath e st
         | Inr entries \<Rightarrow>
             (case crawl_entries
                     (crawl_entry env fs source maxSize
                        (\<lambda>p s. crawlDirectory env fs source maxDepth maxSize p (currentDepth + 1) s)
                        dirPath)
                     entries st of
                (Some e, st') \<Rightarrow> directory_error dirPath e st'
              | (None, st') \<Rightarrow> st')))"
  by pat_completeness auto
termination
  by (relation "measure (\<lambda>(env, fs, source, maxDepth, maxSize, dirPath, currentDepth, st).
        nat (maxDepth - currentDepth))") auto

declare crawlDirectory.simps [simp del]

text \<open>\<^verbatim>\<open>crawlLocalFiles(source, result)\<close>: both failures of the validation surface as the
  same error, thrown before anything is scanned. \<^verbatim>\<open>filters.maxDepth || 10\<close> and
  \<^verbatim>\<open>filters.maxSize || 10 * 1024 * 1024\<close>.\<close>

definition number_or :: "int option \<Rightarrow> int \<Rightarrow> int" where
  "number_or x d = (case x of Some n \<Rightarrow> if n = 0 then d else n | None \<Rightarrow> d)"

definition crawlLocalFiles ::
  "node_env \<Rightarrow> file_system \<Rightarrow> SourceConfig \<Rightarrow> crawl_state \<Rightarrow> string + crawl_state" where
  "crawlLocalFiles env fs source st =
     (let rootPath = root_path source
      in case stat fs rootPath of
           Inl e \<Rightarrow> Inl (''Cannot access path: '' @ rootPath)
         | Inr stats \<Rightarrow>
             if \<not> isDirectory stats then Inl (''Cannot access path: '' @ rootPath)
             else
               (let maxDepth = number_or (case s_filters source of None \<Rightarrow> None
                                          | Some f \<Rightarrow> f_maxDepth f) 10;
                    maxSize = number_or (case s_filters source of None \<Rightarrow> None
                                         | Some f \<Rightarrow> f_maxSize f) (10 * 1024 * 1024)
                in Inr (crawlDirectory env fs source maxDepth maxSize rootPath 0 st)))"

text \<open>The \<^verbatim>\<open>switch\<close> of \<^verbatim>\<open>crawlSource\<close> on the source type.\<close>

definition crawl_by_type ::
  "node_env \<Rightarrow> file_system \<Rightarrow> SourceConfig \<Rightarrow> crawl_state \<Rightarrow> string + crawl_state" where
  "crawl_by_type env fs source st =
     (if s_type source = ''local'' then crawlLocalFiles env fs source st
      else if s_type source = ''git'' then Inl ''Git sources not yet implemented''
      else if s_type source = ''web'' then Inl ''Web sources not yet implemented''
      else if s_type source = ''api'' then Inl ''API sources not yet implemented''
      else Inl (''Unknown source type: '' @ s_type source))"

definition empty_result :: CrawlResult where
  "empty_result =
     \<lparr>documentsFound = 0, documentsProcessed = 0, documentsSkipped = 0, errors = []\<rparr>"

definition status_of ::
  "SourceConfig \<Rightarrow> run_status \<Rightarrow> timestamp \<Rightarrow> string option \<Rightarrow> CrawlResult \<Rightarrow> int option
     \<Rightarrow> SourceStatus" where
  "status_of source s lastRun lastError result duration =
     \<lparr>st_sourceId = s_id source, st_status = s, st_lastRun = Some lastRun,
      st_lastError = lastError, st_documentsFound = documentsFound result,
      st_documentsProcessed = documentsProcessed result,
      st_documentsSkipped = documentsSkipped result, st_duration = duration\<rparr>"

text \<open>The \<^verbatim>\<open>try\<close> block of \<^verbatim>\<open>crawlSource\<close> (lines 44 to 73): the walk, the \<open>success\<close> row and
  the source row with its new \<^verbatim>\<open>lastCrawled\<close>. The first component of the result is the
  exception that leaves the block, if any. The clock is read for \<^verbatim>\<open>lastRun\<close>, for
  \<^verbatim>\<open>duration\<close> and for \<^verbatim>\<open>lastCrawled\<close>.\<close>

definition crawl_try ::
  "node_env \<Rightarrow> file_system \<Rightarrow> clock \<Rightarrow> SourceConfig \<Rightarrow> timestamp \<Rightarrow> crawl_state
     \<Rightarrow> string option \<times> crawl_state" where
  "crawl_try env fs clk source startTime st =
     (case crawl_by_type env fs source st of
        Inl e \<Rightarrow> (Some e, st)
      | Inr (result, w) \<Rightarrow>
          (case updateSourceStatus
                  (status_of source success (clk (ticks w)) None result
                     (Some (clk (ticks w + 1) - startTime))) (store w) of
             Inl e \<Rightarrow> (Some e, (result, w\<lparr>ticks := ticks w + 2\<rparr>))
           | Inr st1 \<Rightarrow>
               (None,
                (result,
                 w\<lparr>store := saveSource (source\<lparr>s_lastCrawled := Some (clk (ticks w + 2))\<rparr>) st1,
                   ticks := ticks w + 3\<rparr>))))"

text \<open>\<^verbatim>\<open>crawlSource(source)\<close>. The clock is read for \<^verbatim>\<open>startTime\<close> and for the \<^verbatim>\<open>lastRun\<close> of
  the \<open>crawling\<close> row, which is written before the \<^verbatim>\<open>try\<close> block: an exception of that
  write leaves \<^verbatim>\<open>crawlSource\<close>. The \<^verbatim>\<open>catch\<close> adds the message to the errors of the result
  and writes the \<open>error\<close> row; an exception of that write leaves \<^verbatim>\<open>crawlSource\<close> too.
  \<open>Inl\<close> is the exception \<^verbatim>\<open>crawlSource\<close> throws, \<open>Inr\<close> the result it returns.\<close>

definition crawlSource ::
  "node_env \<Rightarrow> file_system \<Rightarrow> clock \<Rightarrow> SourceConfig \<Rightarrow> world \<Rightarrow> (string + CrawlResult) \<times> world" where
  "crawlSource env fs clk source w =
     (let startTime = clk (ticks w);
          w0 = w\<lparr>ticks := ticks w + 2\<rparr>
      in case updateSourceStatus
                (status_of source crawling (clk (ticks w + 1)) None empty_result None) (store w) of
           Inl e \<Rightarrow> (Inl e, w0)
         | Inr st0 \<Rightarrow>
             (case crawl_try env fs clk source startTime (empty_result, w0\<lparr>store := st0\<rparr>) of
                (None, (result, w2)) \<Rightarrow> (Inr result, w2)
              | (Some errorMessage, (result0, w2)) \<Rightarrow>
                  (let result = result0\<lparr>errors := errors result0 @ [errorMessage]\<rparr>
                   in case updateSourceStatus
                             (status_of source error (clk (ticks w2)) (Some errorMessage) result
                                (Some (clk (ticks w2 + 1) - startTime))) (store w2) of
                        Inl e \<Rightarrow> (Inl e, w2\<lparr>ticks := ticks w2 + 2\<rparr>)
                      | Inr st1 \<Rightarrow> (Inr result, w2\<lparr>store := st1, ticks := ticks w2 + 2\<rparr>))))"

text \<open>The status the tools list for a source (\<^verbatim>\<open>status?.status || 'idle'\<close> in
  \<^verbatim>\<open>handleListSources\<close>): a source without a status row is \<open>idle\<close>.\<close>

definition listed_status :: "string \<Rightarrow> storage \<Rightarrow> run_status" where
  "listed_status sid st = (case getSourceStatus sid st of None \<Rightarrow> idle | Some s \<Rightarrow> st_status s)"

section \<open>Statements of the specification\<close>

text \<open>The notions the statements of the specification are phrased in. None of them is
  part of the program.\<close>

text \<open>``\<open>v\<close> is the maximum \<^verbatim>\<open>updatedAt\<close> over all documents of the store'': some
  document has it and none has a later one.\<close>

definition is_max_updatedAt :: "storage \<Rightarrow> timestamp \<Rightarrow> bool" where
  "is_max_updatedAt st v \<longleftrightarrow>
     list_ex (\<lambda>d. d_updatedAt d = v) (documents st) \<and> list_all (\<lambda>d. d_updatedAt d \<le> v) (documents st)"

text \<open>Glob matching as the specification words it: \<^verbatim>\<open>*\<close> matches any run of characters,
  \<^verbatim>\<open>?\<close> exactly one character, everything else itself, without regard to case.\<close>

fun glob_as_specified :: "string \<Rightarrow> string \<Rightarrow> bool" where
  "glob_as_specified [] s = (s = [])"
| "glob_as_specified (p # ps) s =
     (if p = CHR ''*'' then list_ex (\<lambda>k. glob_as_specified ps (drop k s)) [0..<Suc (length s)]
      else (case s of
              [] \<Rightarrow> False
            | x # xs \<Rightarrow> (p = CHR ''?'' \<or> canonicalize x = canonicalize p) \<and> glob_as_specified ps xs))"

text \<open>``The run was aborted by a fatal condition'': the source type is not implemented,
  or the root path cannot be accessed or is not a directory.\<close>

definition run_aborts :: "file_system \<Rightarrow> SourceConfig \<Rightarrow> bool" where
  "run_aborts fs source \<longleftrightarrow>
     s_type source \<noteq> ''local''
     \<or> (case stat fs (root_path source) of Inl e \<Rightarrow> True | Inr stats \<Rightarrow> \<not> isDirectory stats)"

text \<open>A candidate file of a run: \<^verbatim>\<open>fs.stat\<close> finds it, it is not larger than \<^verbatim>\<open>maxSize\<close>, and
  its extension is supported.\<close>

definition candidate_file :: "node_env \<Rightarrow> file_system \<Rightarrow> int \<Rightarrow> string \<Rightarrow> bool" where
  "candidate_file env fs maxSize fullPath \<longleftrightarrow>
     (case stat fs fullPath of
        Inl e \<Rightarrow> False
      | Inr stats \<Rightarrow> fs_size stats \<le> maxSize \<and> canParse env fullPath)"

text \<open>A source that has a row in the store, as every source has that the tools pass to
  \<^verbatim>\<open>crawlSource\<close> (\<^verbatim>\<open>handleCrawlSource\<close> and \<^verbatim>\<open>crawlAllEnabledSources\<close> read it from the store).\<close>

definition registered :: "SourceConfig \<Rightarrow> storage \<Rightarrow> bool" where
  "registered source st \<longleftrightarrow> getSource (s_id source) st \<noteq> None"

text \<open>Notions of the proofs about the walk. \<open>walk_keeps a b\<close>: from state \<open>a\<close> to state \<open>b\<close>
  store and clock are untouched, no file was processed, and every file that was found
  was also counted as skipped. \<open>result_only F\<close>: the step \<open>F\<close> leaves store and clock as
  they are, and the result it computes does not depend on them. \<open>run_result\<close>: what a
  run over a file system reports, computed on an empty store.\<close>

definition walk_keeps :: "crawl_state \<Rightarrow> crawl_state \<Rightarrow> bool" where
  "walk_keeps a b \<longleftrightarrow>
     snd b = snd a
     \<and> documentsProcessed (fst b) = documentsProcessed (fst a)
     \<and> documentsFound (fst b) + documentsSkipped (fst a)
         \<le> documentsFound (fst a) + documentsSkipped (fst b)"

definition result_only :: "(crawl_state \<Rightarrow> crawl_state) \<Rightarrow> bool" where
  "result_only F \<longleftrightarrow>
     (\<forall>r w. snd (F (r, w)) = w) \<and> (\<forall>r w w'. fst (F (r, w)) = fst (F (r, w')))"

definition run_result :: "node_env \<Rightarrow> file_system \<Rightarrow> SourceConfig \<Rightarrow> CrawlResult" where
  "run_result env fs source =
     (case crawl_by_type env fs source (empty_result, \<lparr>store = empty_storage, ticks = 0\<rparr>) of
        Inl e \<Rightarrow> empty_result\<lparr>errors := [e]\<rparr>
      | Inr (result, w) \<Rightarrow> result)"

section \<open>Example data\<close>

text \<open>Concrete documents, sources and stores on which the theorems below are
  instantiated, and a small stand-in for the Fuse.js engine: a document is a hit when
  the query occurs literally in its title or content; hits keep the order of the
  collection and are cut to \<open>limit\<close> when \<open>limit > -1\<close>, as Fuse.js does.\<close>

definition example_doc ::
  "string \<Rightarrow> string \<Rightarrow> string \<Rightarrow> string \<Rightarrow> string list option \<Rightarrow> timestamp \<Rightarrow> Document" where
  "example_doc i sid ttl cnt tgs upd =
     \<lparr>d_id = i, d_title = ttl, d_content = cnt, d_type = markdown, d_sourceId = sid,
      d_sourcePath = ''/docs/'' @ i, d_metadata = None, d_tags = tgs, d_createdAt = upd,
      d_updatedAt = upd, d_size = None, d_checksum = None\<rparr>"

definition example_source :: "string \<Rightarrow> SourceConfig" where
  "example_source sid =
     \<lparr>s_id = sid, s_name = sid, s_type = ''local'', s_url = ''file:///docs'', s_enabled = True,
      s_schedule = None, s_lastCrawled = None, s_settings = None, s_filters = None\<rparr>"

definition example_store :: "Document list \<Rightarrow> storage" where
  "example_store docs =
     \<lparr>documents = docs, sources = [example_source ''s1'', example_source ''s2''],
      source_status = [], status_log = []\<rparr>"

definition substring_engine :: fuse_engine where
  "substring_engine docs threshold query limit =
     (let hits = filter (\<lambda>d. js_indexOf (d_title d) query \<noteq> -1
                            \<or> js_indexOf (d_content d) query \<noteq> -1) docs;
          rs = map (\<lambda>d. \<lparr>item = d, fr_score = Some 0, fr_matches = None\<rparr>) hits
      in if limit > -1 then take (nat limit) rs else rs)"

definition example_docs :: "Document list" where
  "example_docs =
     [example_doc ''x'' ''s1'' ''Setup'' ''How to set things up'' (Some [''install'']) 30,
      example_doc ''a'' ''s1'' ''Guide'' ''Setup install steps'' None 20,
      example_doc ''b'' ''s2'' ''Notes'' ''Setup install notes'' (Some [''install'']) 10]"

definition example_docs_self_match :: "Document list" where
  "example_docs_self_match =
     [example_doc ''x'' ''s1'' ''Setup'' ''Setup install here'' (Some [''install'']) 30,
      example_doc ''a'' ''s1'' ''Guide'' ''Setup install steps'' None 20,
      example_doc ''b'' ''s2'' ''Notes'' ''Setup install notes'' (Some [''install'']) 10]"

definition example_clock :: clock where
  "example_clock t = 1000 + int t"

text \<open>Stand-ins for the \<^verbatim>\<open>path\<close> module that agree with Node on ordinary absolute POSIX
  paths (no trailing slash, no \<^verbatim>\<open>.\<close> or \<^verbatim>\<open>..\<close> segments).\<close>

definition posix_basename :: "string \<Rightarrow> string" where
  "posix_basename p = rev (takeWhile (\<lambda>c. c \<noteq> CHR ''/'') (rev p))"

definition posix_dirname :: "string \<Rightarrow> string" where
  "posix_dirname p = take (length p - length (posix_basename p) - 1) p"

definition posix_extname :: "string \<Rightarrow> string" where
  "posix_extname p =
     (let b = posix_basename p;
          e = rev (takeWhile (\<lambda>c. c \<noteq> CHR ''.'') (rev b))
      in if CHR ''.'' \<notin> set b \<or> length b - length e - 1 = 0 then [] else CHR ''.'' # e)"

definition posix_basename_ext :: "string \<Rightarrow> string \<Rightarrow> string" where
  "posix_basename_ext p ext =
     (let b = posix_basename p
      in if ext \<noteq> [] \<and> b \<noteq> ext \<and> drop (length b - length ext) b = ext
         then take (length b - length ext) b else b)"

definition posix_join :: "string \<Rightarrow> string \<Rightarrow> string" where
  "posix_join d n = d @ ''/'' @ n"

definition posix_relative :: "string \<Rightarrow> string \<Rightarrow> string" where
  "posix_relative from p =
     (if take (length from + 1) p = from @ ''/'' then drop (length from + 1) p else p)"

text \<open>An example environment. The hashes are stand-ins; gray-matter takes
  a text without a front-matter fence as all body and rejects the malformed front
  matter of \<open>bad_markdown\<close>; markdown-it and cheerio return their input as text;
  pdf-parse rejects every buffer that does not start with \<^verbatim>\<open>%PDF\<close>; \<^verbatim>\<open>JSON.parse\<close> knows two
  texts; no regular expression outside the modelled fragment is accepted.\<close>

definition bad_markdown :: string where
  "bad_markdown = ''---'' @ [CHR 0x0A] @ ''title: [unclosed'' @ [CHR 0x0A] @ ''---'' @ [CHR 0x0A] @ ''# Body''"

definition example_env :: node_env where
  "example_env =
     \<lparr>sha256_hex = (\<lambda>s. ''sha256:'' @ s),
      md5_hex = (\<lambda>s. ''md5:'' @ s),
      path_join = posix_join,
      path_relative = posix_relative,
      path_extname = posix_extname,
      path_basename = posix_basename,
      path_basename_ext = posix_basename_ext,
      path_dirname = posix_dirname,
      regexp_test = (\<lambda>src s. Inl (''SyntaxError: Invalid regular expression: '' @ src)),
      matter = (\<lambda>s. if s = bad_markdown
                     then Inl ''YAMLException: unexpected end of the stream within a flow collection''
                     else Inr \<lparr>gm_title = None, gm_tags = None, gm_keywords = None,
                              gm_data = JObj [], gm_content = s\<rparr>),
      md_render = (\<lambda>s. Inr s),
      cheerio_load = (\<lambda>s. Inr \<lparr>title_text = [], first_h1_text = [], body_text = s, all_text = s,
                               metas = [], heading_texts = [], link_hrefs = []\<rparr>),
      pdf_parse = (\<lambda>b. if take 4 b = ''%PDF''
                        then Inr \<lparr>pdf_info_Title = None, pdf_text = drop 4 b, pdf_info = JObj [],
                                 pdf_numpages = 1, pdf_version = ''1.10.100''\<rparr>
                        else Inl ''Invalid PDF structure''),
      json_parse = (\<lambda>s. if s = ''null'' then Inr JNull
                         else if s = ''{}'' then Inr (JObj [])
                         else Inl ''SyntaxError: Unexpected token''),
      require_not_defined = ''require is not defined''\<rparr>"

text \<open>An example file system given by three tables: what \<^verbatim>\<open>stat\<close> knows, the entries of
  the directories that can be read, and the contents of the files that can be read.\<close>

definition example_fs ::
  "(string \<times> Stats) list \<Rightarrow> (string \<times> Dirent list) list \<Rightarrow> (string \<times> string) list \<Rightarrow> file_system" where
  "example_fs stat_table dir_table file_table =
     \<lparr>stat = (\<lambda>p. case map_of stat_table p of
                     Some s \<Rightarrow> Inr s
                   | None \<Rightarrow> Inl (''ENOENT: no such file or directory, stat '' @ p)),
      readdir = (\<lambda>p. case map_of dir_table p of
                        Some es \<Rightarrow> Inr es
                      | None \<Rightarrow> Inl (''EACCES: permission denied, scandir '' @ p)),
      readFile = (\<lambda>p. case map_of file_table p of
                         Some b \<Rightarrow> Inr b
                       | None \<Rightarrow> Inl (''EACCES: permission denied, open '' @ p))\<rparr>"

definition dir_stats :: Stats where
  "dir_stats = \<lparr>isDirectory = True, fs_size = 4096, mtime = 1, birthtime = 1\<rparr>"

definition file_stats :: "int \<Rightarrow> timestamp \<Rightarrow> Stats" where
  "file_stats n t = \<lparr>isDirectory = False, fs_size = n, mtime = t, birthtime = t\<rparr>"

definition new_world :: "storage \<Rightarrow> world" where
  "new_world st = \<lparr>store = st, ticks = 0\<rparr>"

definition example_filters :: "string list option \<Rightarrow> string list option \<Rightarrow> Filters" where
  "example_filters inc exc =
     \<lparr>f_include = inc, f_exclude = exc, f_maxDepth = None, f_maxSize = None\<rparr>"

text \<open>A tree with a markdown file, a text file, an image, a PDF that does not decode, a
  text file that cannot be read, a markdown file with malformed front matter, an
  entry whose \<^verbatim>\<open>stat\<close> fails, a directory that cannot be read and a directory \<^verbatim>\<open>drafts\<close>.\<close>

definition docs_fs :: file_system where
  "docs_fs = example_fs
     [(''/docs'', dir_stats),
      (''/docs/guide.md'', file_stats 12 500),
      (''/docs/notes.txt'', file_stats 5 600),
      (''/docs/logo.png'', file_stats 900 100),
      (''/docs/scan.pdf'', file_stats 7 700),
      (''/docs/locked.txt'', file_stats 3 100),
      (''/docs/bad.md'', file_stats 30 100),
      (''/docs/private'', dir_stats),
      (''/docs/drafts'', dir_stats),
      (''/docs/drafts/wip.md'', file_stats 4 800)]
     [(''/docs'',
         [(''guide.md'', file_entry), (''notes.txt'', file_entry), (''logo.png'', file_entry),
          (''scan.pdf'', file_entry), (''locked.txt'', file_entry), (''bad.md'', file_entry),
          (''gone.md'', file_entry), (''private'', directory_entry),
          (''drafts'', directory_entry)]),
      (''/docs/drafts'', [(''wip.md'', file_entry)])]
     [(''/docs/guide.md'', ''# Guide'' @ [CHR 0x0A] @ ''text''),
      (''/docs/notes.txt'', ''notes''),
      (''/docs/logo.png'', ''PNG''),
      (''/docs/scan.pdf'', ''garbage''),
      (''/docs/bad.md'', bad_markdown),
      (''/docs/drafts/wip.md'', ''work'')]"

text \<open>A tree with one markdown file, last modified at a given time, and one image.\<close>

definition small_fs :: "timestamp \<Rightarrow> file_system" where
  "small_fs t = example_fs
     [(''/docs'', dir_stats), (''/docs/guide.md'', file_stats 12 t),
      (''/docs/logo.png'', file_stats 900 100)]
     [(''/docs'', [(''guide.md'', file_entry), (''logo.png'', file_entry)])]
     [(''/docs/guide.md'', ''# Guide''), (''/docs/logo.png'', ''PNG'')]"

text \<open>A tree whose directory \<^verbatim>\<open>drafts\<close> holds a file with an ordinary name and a file with
  a line feed in its name (any byte but \<^verbatim>\<open>/\<close> and NUL may occur in a POSIX file name).\<close>

definition linefeed_fs :: file_system where
  "linefeed_fs = example_fs
     [(''/docs'', dir_stats), (''/docs/drafts'', dir_stats),
      (''/docs/drafts/wip.md'', file_stats 4 800),
      (''/docs/drafts/a'' @ [CHR 0x0A] @ ''b.md'', file_stats 4 800)]
     [(''/docs'', [(''drafts'', directory_entry)]),
      (''/docs/drafts'', [(''wip.md'', file_entry), (''a'' @ [CHR 0x0A] @ ''b.md'', file_entry)])]
     [(''/docs/drafts/wip.md'', ''work''), (''/docs/drafts/a'' @ [CHR 0x0A] @ ''b.md'', ''work'')]"

section \<open>Properties of the storage service\<close>

lemma getDocument_None_iff: "getDocument i st = None \<longleftrightarrow> (\<forall>r \<in> set (documents st). d_id r \<noteq> i)"
  by (auto simp: getDocument_def find_None_iff)

lemma getSourceStatus_None_iff:
  "getSourceStatus i st = None \<longleftrightarrow> (\<forall>r \<in> set (source_status st). st_sourceId r \<noteq> i)"
  by (auto simp: getSourceStatus_def find_None_iff)

lemma getSource_None_iff: "getSource i st = None \<longleftrightarrow> (\<forall>r \<in> set (sources st). s_id r \<noteq> i)"
  by (auto simp: getSource_def find_None_iff)

text \<open>
  Claim C5. Deleting a source removes every document whose \<open>sourceId\<close> is the source's id
  and the source's status row before the source row itself is removed: in the state
  the third statement starts from, the documents and the status row are already gone
  while the \<open>sources\<close> table is still untouched; afterwards the store holds no document
  of that source, no status row and no source row for it, whatever the number of
  documents was, and the rows of other sources are kept.
\<close>

theorem deleteSource_cascade:
  "deleteSource i st = delete_source_row i (delete_status_of i (delete_documents_of i st))
   \<and> getDocumentsBySource i (delete_status_of i (delete_documents_of i st)) = []
   \<and> getSourceStatus i (delete_status_of i (delete_documents_of i st)) = None
   \<and> sources (delete_status_of i (delete_documents_of i st)) = sources st
   \<and> getDocumentsBySource i (snd (deleteSource i st)) = []
   \<and> filter (\<lambda>r. d_sourceId r = i) (documents (snd (deleteSource i st))) = []
   \<and> getSourceStatus i (snd (deleteSource i st)) = None
   \<and> getSource i (snd (deleteSource i st)) = None
   \<and> (fst (deleteSource i st) \<longleftrightarrow> getSource i st \<noteq> None)
   \<and> filter (\<lambda>r. d_sourceId r \<noteq> i) (documents (snd (deleteSource i st)))
       = filter (\<lambda>r. d_sourceId r \<noteq> i) (documents st)"
  by (auto simp: deleteSource_def delete_source_row_def delete_status_of_def
      delete_documents_of_def getDocumentsBySource_def getSourceStatus_None_iff
      getSource_None_iff filter_empty_conv)

section \<open>Properties of the search service\<close>

lemma sql_max_None_iff: "sql_max xs = None \<longleftrightarrow> xs = []"
  by (induction xs) (auto split: option.splits)

lemma sql_max_Max: "xs \<noteq> [] \<Longrightarrow> sql_max xs = Some (Max (set xs))"
proof (induction xs)
  case Nil
  then show ?case by simp
next
  case (Cons x xs)
  show ?case
  proof (cases "xs = []")
    case True
    then show ?thesis by simp
  next
    case False
    with Cons have "sql_max xs = Some (Max (set xs))" by simp
    with False show ?thesis by (simp add: max_def Max_insert)
  qed
qed











lemma length_js_slice0: "0 \<le> k \<Longrightarrow> int (length (js_slice0 xs k)) \<le> k"
  by (simp add: js_slice0_def)

lemma search_cases:
  "search fz clk st query opts state = (results, svc, t) \<Longrightarrow>
   refresh_index clk st state = (svc, t) \<and>
   (results = [] \<or>
    (\<exists>indexed. fuse svc = Some indexed \<and> js_trim query \<noteq> [] \<and> results = map (to_search_result query)
        (js_slice0 (post_filter opts
           (fz (if search_threshold opts \<noteq> 0.3 then ss_documents svc else indexed)
               (search_threshold opts) query (search_limit opts * 2)))
         (search_limit opts))))"
  by (auto simp: search_def Let_def split: prod.splits option.splits if_splits)

lemma refresh_index_eq:
  "refresh_index clk st (svc, t) =
     (let t1 = (if snd (getDocumentStats (clk t) st) then Suc t else t)
      in if lastUpdated (fst (getDocumentStats (clk t) st)) > lastIndexUpdate svc
         then rebuildIndex clk st (svc, t1) else (svc, t1))"
  by (simp add: refresh_index_def Let_def split: prod.splits)

lemma post_filter_no_options [simp]: "post_filter (no_options\<lparr>o_limit := l\<rparr>) rs = rs"
  by (simp add: post_filter_def no_options_def filter_tags_def filter_types_def filter_sourceIds_def)

lemma getSimilarDocuments_fst:
  "fst (getSimilarDocuments fz clk st documentId limit state) =
     (case getDocument documentId st of
        None \<Rightarrow> []
      | Some doc \<Rightarrow> filter (\<lambda>r. d_id (document r) \<noteq> documentId)
          (fst (search fz clk st (similar_query doc) (no_options\<lparr>o_limit := Some (limit + 1)\<rparr>) state)))"
  by (auto simp: getSimilarDocuments_def split: option.splits prod.splits)

lemma search_length:
  "0 \<le> search_limit opts \<Longrightarrow>
     int (length (fst (search fz clk st query opts state))) \<le> search_limit opts"
proof -
  assume l: "0 \<le> search_limit opts"
  obtain results svc t where s: "search fz clk st query opts state = (results, svc, t)"
    by (cases "search fz clk st query opts state") auto
  from search_cases [OF s] l show ?thesis unfolding s by (auto simp: length_js_slice0)
qed

text \<open>
  Claim C10. \<^verbatim>\<open>getSimilarDocuments(documentId, limit)\<close> returns at most \<open>limit + 1\<close>
  results, and the bound is reached: the target is removed after the underlying search
  was cut to \<open>limit + 1\<close>, so when the engine has at least \<open>limit + 1\<close> hits for the
  target's own query and the target is not among the first \<open>limit + 1\<close>, exactly
  \<open>limit + 1\<close> documents come back; there are stores where this happens.
\<close>

theorem getSimilarDocuments_at_most_limit_plus_one:
  "(0 \<le> limit + 1 \<longrightarrow>
      int (length (fst (getSimilarDocuments fz clk st documentId limit state))) \<le> limit + 1)
   \<and> (\<forall>doc indexed.
         getDocument documentId st = Some doc \<and> 0 \<le> limit
         \<and> js_trim (similar_query doc) \<noteq> []
         \<and> fuse (fst (refresh_index clk st state)) = Some indexed
         \<and> limit + 1 \<le> int (length (fz indexed 0.3 (similar_query doc) ((limit + 1) * 2)))
         \<and> (\<forall>r \<in> set (take (nat (limit + 1)) (fz indexed 0.3 (similar_query doc) ((limit + 1) * 2))).
                d_id (item r) \<noteq> documentId)
         \<longrightarrow> int (length (fst (getSimilarDocuments fz clk st documentId limit state))) = limit + 1)
   \<and> (\<exists>fz' clk' st' documentId' limit' state'. 0 \<le> limit'
         \<and> limit' < int (length (fst (getSimilarDocuments fz' clk' st' documentId' limit' state'))))"
proof (intro conjI allI impI)
  assume l: "0 \<le> limit + 1"
  show "int (length (fst (getSimilarDocuments fz clk st documentId limit state))) \<le> limit + 1"
  proof (cases "getDocument documentId st")
    case None
    with l show ?thesis by (simp add: getSimilarDocuments_def)
  next
    case (Some doc)
    let ?opts = "no_options\<lparr>o_limit := Some (limit + 1)\<rparr>"
    obtain results state' where s: "search fz clk st (similar_query doc) ?opts state = (results, state')"
      by (cases "search fz clk st (similar_query doc) ?opts state") auto
    have sl: "search_limit ?opts = limit + 1" by (simp add: search_limit_def)
    from search_length [of ?opts fz clk st "similar_query doc" state] l
    have bound: "int (length results) \<le> limit + 1" unfolding sl s by simp
    have "fst (getSimilarDocuments fz clk st documentId limit state) =
            filter (\<lambda>r. d_id (document r) \<noteq> documentId) results"
      using Some s by (simp add: getSimilarDocuments_fst)
    then have "int (length (fst (getSimilarDocuments fz clk st documentId limit state)))
                 \<le> int (length results)"
      by simp
    with bound show ?thesis by linarith
  qed
next
  fix doc indexed
  assume a: "getDocument documentId st = Some doc \<and> 0 \<le> limit
         \<and> js_trim (similar_query doc) \<noteq> []
         \<and> fuse (fst (refresh_index clk st state)) = Some indexed
         \<and> limit + 1 \<le> int (length (fz indexed 0.3 (similar_query doc) ((limit + 1) * 2)))
         \<and> (\<forall>r \<in> set (take (nat (limit + 1)) (fz indexed 0.3 (similar_query doc) ((limit + 1) * 2))).
                d_id (item r) \<noteq> documentId)"
  let ?fetched = "fz indexed 0.3 (similar_query doc) ((limit + 1) * 2)"
  let ?opts = "no_options\<lparr>o_limit := Some (limit + 1)\<rparr>"
  have sl: "search_limit ?opts = limit + 1" by (simp add: search_limit_def)
  have th: "search_threshold ?opts = 0.3" by (simp add: search_threshold_def no_options_def)
  obtain svc t where r: "refresh_index clk st state = (svc, t)"
    by (cases "refresh_index clk st state") auto
  with a have f: "fuse svc = Some indexed" by simp
  have res: "fst (search fz clk st (similar_query doc) ?opts state) =
         map (to_search_result (similar_query doc)) (take (nat (limit + 1)) ?fetched)"
    using a f r by (simp add: search_def sl th js_slice0_def)
  have keep: "filter (\<lambda>r. d_id (document r) \<noteq> documentId)
           (map (to_search_result (similar_query doc)) (take (nat (limit + 1)) ?fetched))
        = map (to_search_result (similar_query doc)) (take (nat (limit + 1)) ?fetched)"
    using a by (simp add: filter_map o_def to_search_result_def)
  have "fst (getSimilarDocuments fz clk st documentId limit state) =
          map (to_search_result (similar_query doc)) (take (nat (limit + 1)) ?fetched)"
    using a res keep by (simp add: getSimilarDocuments_fst)
  then have "length (fst (getSimilarDocuments fz clk st documentId limit state))
               = min (length ?fetched) (nat (limit + 1))"
    by simp
  moreover from a have "nat (limit + 1) \<le> length ?fetched" by linarith
  ultimately show "int (length (fst (getSimilarDocuments fz clk st documentId limit state))) = limit + 1"
    using a by simp
next
  have "(0::int) \<le> 1 \<and> 1 < int (length (fst (getSimilarDocuments substring_engine (\<lambda>t. 1000 + int t)
          (example_store
            [example_doc ''x'' ''s1'' ''Setup'' ''How to set things up'' (Some [''install'']) 30,
             example_doc ''a'' ''s1'' ''Guide'' ''Setup install steps'' None 20,
             example_doc ''b'' ''s2'' ''Notes'' ''Setup install notes'' (Some [''install'']) 10])
          ''x'' 1 (new_SearchService, 0))))"
    by code_simp
  then show "\<exists>fz' clk' st' documentId' limit' state'. 0 \<le> limit'
         \<and> limit' < int (length (fst (getSimilarDocuments fz' clk' st' documentId' limit' state')))"
    by blast
qed

theorem getSimilarDocuments_at_most_limit_plus_one_witness:
  "map d_id (map document (fst (getSimilarDocuments substring_engine example_clock
       (example_store example_docs) ''x'' 1 (new_SearchService, 0)))) = [''a'', ''b'']
   \<and> (1::int) < int (length (fst (getSimilarDocuments substring_engine example_clock
       (example_store example_docs) ''x'' 1 (new_SearchService, 0))))"
proof -
  have w: ?thesis by code_simp
  from getSimilarDocuments_at_most_limit_plus_one [of 1 substring_engine example_clock
      "example_store example_docs" "''x''" "(new_SearchService, 0)"] w
  show ?thesis by blast
qed



text \<open>
  Claim C8. \<^verbatim>\<open>getSimilarDocuments(documentId, limit)\<close> never returns the target document;
  when the target is in the store, the answer is the result of \<^verbatim>\<open>search\<close> on the query
  built from the target's title followed by its tags, joined by blanks, with
  \<open>limit + 1\<close> as the limit and no other option, with the results of the target's id
  removed.
\<close>

theorem getSimilarDocuments_excludes_target:
  "(\<forall>r \<in> set (fst (getSimilarDocuments fz clk st documentId limit state)).
       d_id (document r) \<noteq> documentId)
   \<and> (\<forall>doc. getDocument documentId st = Some doc \<longrightarrow>
         fst (getSimilarDocuments fz clk st documentId limit state) =
           filter (\<lambda>r. d_id (document r) \<noteq> documentId)
             (fst (search fz clk st
                     (js_join '' '' (d_title doc # (case d_tags doc of None \<Rightarrow> [] | Some ts \<Rightarrow> ts)))
                     \<lparr>o_limit = Some (limit + 1), o_threshold = None, o_sourceIds = None,
                      o_types = None, o_tags = None\<rparr> state)))"
  by (auto simp: getSimilarDocuments_def similar_query_def no_options_def
      split: option.splits prod.splits)

theorem getSimilarDocuments_excludes_target_witness:
  "map d_id (map document (fst (search substring_engine example_clock
       (example_store example_docs_self_match) ''Setup install''
       (no_options\<lparr>o_limit := Some 6\<rparr>) (new_SearchService, 0)))) = [''x'', ''a'', ''b'']
   \<and> map d_id (map document (fst (getSimilarDocuments substring_engine example_clock
       (example_store example_docs_self_match) ''x'' 5 (new_SearchService, 0)))) = [''a'', ''b'']"
proof -
  have w: ?thesis by code_simp
  from getSimilarDocuments_excludes_target [of substring_engine example_clock
      "example_store example_docs_self_match" "''x''" 5 "(new_SearchService, 0)"] w
  show ?thesis by blast
qed

lemma is_max_updatedAt_Max:
  assumes "documents st \<noteq> []"
  shows "is_max_updatedAt st v \<longleftrightarrow> v = Max (d_updatedAt ` set (documents st))"
proof -
  let ?S = "d_updatedAt ` set (documents st)"
  have fin: "finite ?S" and ne: "?S \<noteq> {}" using assms by auto
  have "is_max_updatedAt st v \<longleftrightarrow> v \<in> ?S \<and> (\<forall>x \<in> ?S. x \<le> v)"
    unfolding is_max_updatedAt_def list_ex_iff list_all_iff by auto
  also have "\<dots> \<longleftrightarrow> v = Max ?S"
    using fin ne by (auto intro: Max_eqI [symmetric])
  finally show ?thesis .
qed

text \<open>
  Claim C9, as the code has it. When the store holds at least one document (and the
  maximum is not the epoch itself, which JavaScript reads as falsy),
  \<^verbatim>\<open>Stats.lastUpdated\<close> is the maximum \<^verbatim>\<open>updatedAt\<close> over all documents of the store; for an
  empty store it is the current time. \<^verbatim>\<open>search\<close> starts by comparing this value with the
  time of the last index build and rebuilds the index exactly when the value is later.
\<close>

theorem lastUpdated_staleness_signal:
  "(documents st \<noteq> [] \<and> Max (d_updatedAt ` set (documents st)) \<noteq> 0 \<longrightarrow>
      lastUpdated (fst (getDocumentStats now st)) = Max (d_updatedAt ` set (documents st))
      \<and> is_max_updatedAt st (lastUpdated (fst (getDocumentStats now st))))
   \<and> (documents st = [] \<longrightarrow> lastUpdated (fst (getDocumentStats now st)) = now)
   \<and> refresh_index clk st (svc, t) =
       (let t1 = (if snd (getDocumentStats (clk t) st) then Suc t else t)
        in if lastUpdated (fst (getDocumentStats (clk t) st)) > lastIndexUpdate svc
           then rebuildIndex clk st (svc, t1) else (svc, t1))
   \<and> snd (search fz clk st query opts (svc, t)) = refresh_index clk st (svc, t)"
proof (intro conjI impI)
  assume a: "documents st \<noteq> [] \<and> Max (d_updatedAt ` set (documents st)) \<noteq> 0"
  then have "sql_max (map d_updatedAt (documents st)) = Some (Max (d_updatedAt ` set (documents st)))"
    using sql_max_Max [of "map d_updatedAt (documents st)"] by simp
  with a show "lastUpdated (fst (getDocumentStats now st)) = Max (d_updatedAt ` set (documents st))"
    by (simp add: getDocumentStats_def num_or_null_def Let_def)
  with a show "is_max_updatedAt st (lastUpdated (fst (getDocumentStats now st)))"
    by (simp add: is_max_updatedAt_Max)
next
  assume "documents st = []"
  then show "lastUpdated (fst (getDocumentStats now st)) = now"
    by (simp add: getDocumentStats_def num_or_null_def Let_def)
next
  show "refresh_index clk st (svc, t) =
       (let t1 = (if snd (getDocumentStats (clk t) st) then Suc t else t)
        in if lastUpdated (fst (getDocumentStats (clk t) st)) > lastIndexUpdate svc
           then rebuildIndex clk st (svc, t1) else (svc, t1))"
    by (rule refresh_index_eq)
next
  show "snd (search fz clk st query opts (svc, t)) = refresh_index clk st (svc, t)"
    by (auto simp: search_def Let_def split: prod.splits option.splits)
qed

theorem lastUpdated_staleness_signal_witness:
  "documents (example_store example_docs) \<noteq> []
   \<and> lastUpdated (fst (getDocumentStats 1000 (example_store example_docs))) = 30
   \<and> is_max_updatedAt (example_store example_docs) 30
   \<and> lastIndexUpdate (fst (refresh_index example_clock (example_store example_docs)
         (new_SearchService, 0))) = 1000
   \<and> lastUpdated (fst (getDocumentStats 1000 empty_storage)) = 1000"
proof -
  have w: ?thesis by code_simp
  from lastUpdated_staleness_signal [of "example_store example_docs" 1000 example_clock
      new_SearchService 0 substring_engine "''q''" no_options] w
  show ?thesis by blast
qed

text \<open>The claim as stated, for every store, fails on the empty store (no document, so
  no maximum; the value is the clock's) and on a store whose only document was
  modified at the epoch.\<close>


theorem lastUpdated_counterexample:
  "\<not> is_max_updatedAt empty_storage (lastUpdated (fst (getDocumentStats 1000 empty_storage)))
   \<and> \<not> is_max_updatedAt (example_store [example_doc ''x'' ''s1'' ''Epoch'' ''body'' None 0])
         (lastUpdated (fst (getDocumentStats 1000
            (example_store [example_doc ''x'' ''s1'' ''Epoch'' ''body'' None 0]))))
   \<and> lastUpdated (fst (getDocumentStats 1000
            (example_store [example_doc ''x'' ''s1'' ''Epoch'' ''body'' None 0]))) = 1000"
  by code_simp

section \<open>Properties of the parser\<close>

lemma find_filter_append:
  "find P (filter Q xs @ [y]) =
     (case find (\<lambda>x. P x \<and> Q x) xs of Some x \<Rightarrow> Some x | None \<Rightarrow> if P y then Some y else None)"
  by (induction xs) auto

lemma d_id_document_row [simp]: "d_id (document_row doc) = d_id doc"
  by (simp add: document_row_def)

lemma d_updatedAt_document_row [simp]: "d_updatedAt (document_row doc) = d_updatedAt doc"
  by (simp add: document_row_def)

lemma getDocument_saveDocument:
  "getDocument i (saveDocument doc st) =
     (if i = d_id doc then Some (document_row doc) else getDocument i st)"
proof -
  have 1: "find (\<lambda>x. d_id x = i \<and> d_id x \<noteq> d_id doc) xs = (if i = d_id doc then None else find (\<lambda>x. d_id x = i) xs)" for xs
    by (induction xs) auto
  show ?thesis
    by (simp add: getDocument_def saveDocument_def find_filter_append 1 split: option.splits)
qed

lemma parseFile_Some:
  "parseFile env fs now p sid = Some doc \<Longrightarrow>
     d_id doc = sha256_hex env (sid @ '':'' @ p) \<and> d_sourceId doc = sid \<and> d_sourcePath doc = p
     \<and> (\<exists>stats. stat fs p = Inr stats
           \<and> d_updatedAt doc = (if mtime stats > now then now else mtime stats))"
  by (auto simp: parseFile_def parseFile_try_def Let_def split: sum.splits prod.splits)

lemma parseFile_None_iff:
  "parseFile env fs now p sid = None \<longleftrightarrow>
     (\<exists>e. stat fs p = Inl e) \<or> (\<exists>e. readFile fs p = Inl e)
     \<or> (\<exists>buffer e. readFile fs p = Inr buffer
           \<and> parse_by_extension env (toLowerCase (path_extname env p)) buffer = Inl e)"
  by (auto simp: parseFile_def parseFile_try_def Let_def split: sum.splits prod.splits)

lemma parse_by_extension_Inl_iff:
  "parse_by_extension env ext buffer = Inl e \<longleftrightarrow>
     ((ext = ''.md'' \<or> ext = ''.markdown'') \<and> parseMarkdown env buffer = Inl e)
     \<or> ((ext = ''.html'' \<or> ext = ''.htm'') \<and> parseHTML env buffer = Inl e)"
  by (auto simp: parse_by_extension_def split: sum.splits)

lemma parseFile_None_now: "parseFile env fs now p sid = None \<longleftrightarrow> parseFile env fs now' p sid = None"
  by (simp add: parseFile_None_iff)

text \<open>
  Claim C3, as the code has it. \<^verbatim>\<open>parseFile\<close> never throws: every exception inside it is
  caught and turned into \<^verbatim>\<open>null\<close>. A PDF that fails to decode yields a placeholder
  document of type \<open>pdf\<close> that carries the byte length and the error message in its
  metadata; a file that was read and whose extension is neither markdown nor HTML
  always yields a document. \<^verbatim>\<open>null\<close> is returned exactly when the file cannot be
  stat'ed or read, or when the markdown or the HTML parser throws.
\<close>

theorem parseFile_degrades:
  "(\<forall>stats buffer e.
      stat fs p = Inr stats \<and> readFile fs p = Inr buffer
      \<and> toLowerCase (path_extname env p) = ''.pdf'' \<and> pdf_parse env buffer = Inl e \<longrightarrow>
      (\<exists>doc md. parseFile env fs now p sid = Some doc \<and> d_type doc = pdf
         \<and> d_title doc = ''PDF Document''
         \<and> d_content doc = ''[PDF file - '' @ show_nat (length buffer) @ '' bytes]''
         \<and> d_metadata doc = Some md
         \<and> map_of md ''size'' = Some (JNum (int (length buffer)))
         \<and> map_of md ''parseError'' = Some (JStr e)))
   \<and> (\<forall>stats buffer.
        stat fs p = Inr stats \<and> readFile fs p = Inr buffer
        \<and> toLowerCase (path_extname env p) \<notin> {''.md'', ''.markdown'', ''.html'', ''.htm''} \<longrightarrow>
        parseFile env fs now p sid \<noteq> None)
   \<and> (parseFile env fs now p sid = None \<longleftrightarrow>
        (\<exists>e. stat fs p = Inl e) \<or> (\<exists>e. readFile fs p = Inl e)
        \<or> (\<exists>buffer e. readFile fs p = Inr buffer
              \<and> (toLowerCase (path_extname env p) \<in> {''.md'', ''.markdown''}
                    \<and> parseMarkdown env buffer = Inl e
                  \<or> toLowerCase (path_extname env p) \<in> {''.html'', ''.htm''}
                    \<and> parseHTML env buffer = Inl e)))"
proof (intro conjI allI impI)
  fix stats buffer e
  assume a: "stat fs p = Inr stats \<and> readFile fs p = Inr buffer
      \<and> toLowerCase (path_extname env p) = ''.pdf'' \<and> pdf_parse env buffer = Inl e"
  then show "\<exists>doc md. parseFile env fs now p sid = Some doc \<and> d_type doc = pdf
         \<and> d_title doc = ''PDF Document''
         \<and> d_content doc = ''[PDF file - '' @ show_nat (length buffer) @ '' bytes]''
         \<and> d_metadata doc = Some md
         \<and> map_of md ''size'' = Some (JNum (int (length buffer)))
         \<and> map_of md ''parseError'' = Some (JStr e)"
    by (simp add: parseFile_def parseFile_try_def parse_by_extension_def parsePDF_def obj_spread_def
        del: show_nat.simps)
next
  fix stats buffer
  assume "stat fs p = Inr stats \<and> readFile fs p = Inr buffer
        \<and> toLowerCase (path_extname env p) \<notin> {''.md'', ''.markdown'', ''.html'', ''.htm''}"
  then show "parseFile env fs now p sid \<noteq> None"
    by (auto simp: parseFile_None_iff parse_by_extension_Inl_iff)
next
  show "parseFile env fs now p sid = None \<longleftrightarrow>
        (\<exists>e. stat fs p = Inl e) \<or> (\<exists>e. readFile fs p = Inl e)
        \<or> (\<exists>buffer e. readFile fs p = Inr buffer
              \<and> (toLowerCase (path_extname env p) \<in> {''.md'', ''.markdown''}
                    \<and> parseMarkdown env buffer = Inl e
                  \<or> toLowerCase (path_extname env p) \<in> {''.html'', ''.htm''}
                    \<and> parseHTML env buffer = Inl e))"
    unfolding parseFile_None_iff parse_by_extension_Inl_iff by auto
qed

theorem parseFile_degrades_witness:
  "stat docs_fs ''/docs/scan.pdf'' = Inr (file_stats 7 700)
   \<and> readFile docs_fs ''/docs/scan.pdf'' = Inr ''garbage''
   \<and> pdf_parse example_env ''garbage'' = Inl ''Invalid PDF structure''
   \<and> map_option d_content (parseFile example_env docs_fs 1000 ''/docs/scan.pdf'' ''s1'')
       = Some ''[PDF file - 7 bytes]''
   \<and> map_option d_metadata (parseFile example_env docs_fs 1000 ''/docs/scan.pdf'' ''s1'')
       = Some (Some [(''size'', JNum 7), (''type'', JStr ''pdf''),
            (''parseError'', JStr ''Invalid PDF structure''), (''fileName'', JStr ''scan.pdf''),
            (''extension'', JStr ''.pdf''), (''directory'', JStr ''/docs'')])"
proof -
  have w: ?thesis by code_simp
  from parseFile_degrades [of docs_fs "''/docs/scan.pdf''" example_env 1000 "''s1''"] w
  show ?thesis by blast
qed

text \<open>The claim as stated fails: \<^verbatim>\<open>parseFile\<close> returns \<^verbatim>\<open>null\<close> for files that the checks of
  its caller (the filters, the size limit, \<^verbatim>\<open>canParse\<close>) do not exclude: a text file that
  cannot be read and a markdown file whose front matter does not parse.\<close>

theorem parseFile_none_counterexample:
  "canParse example_env ''/docs/locked.txt''
   \<and> stat docs_fs ''/docs/locked.txt'' = Inr (file_stats 3 100)
   \<and> parseFile example_env docs_fs 1000 ''/docs/locked.txt'' ''s1'' = None
   \<and> shouldProcessPath example_env ''locked.txt'' None = Inr True
   \<and> readFile docs_fs ''/docs/bad.md'' = Inr bad_markdown
   \<and> parseFile example_env docs_fs 1000 ''/docs/bad.md'' ''s1'' = None
   \<and> canParse example_env ''/docs/bad.md''
   \<and> stat docs_fs ''/docs/bad.md'' = Inr (file_stats 30 100)
   \<and> shouldProcessPath example_env ''bad.md'' None = Inr True
   \<and> documentsSkipped (fst (process_file example_env docs_fs (example_source ''s1'') 10485760
        ''/docs/bad.md'' (empty_result, new_world (example_store [])))) = 1
   \<and> documentsSkipped (fst (process_file example_env docs_fs (example_source ''s1'') 10485760
        ''/docs/locked.txt'' (empty_result, new_world (example_store [])))) = 1"
  by code_simp

section \<open>Properties of the crawler\<close>

lemma crawl_entries_preserves:
  assumes refl: "\<And>s. R s s"
    and trans: "\<And>a b c. R a b \<Longrightarrow> R b c \<Longrightarrow> R a c"
    and step: "\<And>entry s. entry \<in> set entries \<Longrightarrow> R s (snd (step entry s))"
  shows "R st (snd (crawl_entries step entries st))"
  using step
proof (induction entries arbitrary: st)
  case Nil
  then show ?case by (simp add: refl)
next
  case (Cons entry entries)
  obtain r st' where s: "step entry st = (r, st')" by (cases "step entry st") auto
  from Cons.prems [of entry st] s have 1: "R st st'" by simp
  show ?case
  proof (cases r)
    case None
    from Cons.IH [of st'] Cons.prems have "R st' (snd (crawl_entries step entries st'))" by simp
    with 1 s None show ?thesis by (auto intro: trans)
  next
    case (Some e)
    with 1 s show ?thesis by simp
  qed
qed

lemma crawl_entry_preserves:
  assumes refl: "\<And>s. R s s"
    and skip: "\<And>s. R s (skip s)"
    and pfile: "\<And>p s. R s (process_file env fs source maxSize p s)"
    and rec: "\<And>p s. R s (recurse p s)"
  shows "R st (snd (crawl_entry env fs source maxSize recurse dirPath entry st))"
  by (auto simp: crawl_entry_def Let_def refl skip pfile rec split: sum.splits entry_kind.splits)

lemma crawlDirectory_preserves:
  assumes refl: "\<And>s. R s s"
    and trans: "\<And>a b c. R a b \<Longrightarrow> R b c \<Longrightarrow> R a c"
    and skip: "\<And>s. R s (skip s)"
    and pfile: "\<And>p s. R s (process_file env fs source maxSize p s)"
    and err: "\<And>d e s. R s (directory_error d e s)"
  shows "R st (crawlDirectory env fs source maxDepth maxSize dirPath currentDepth st)"
  using pfile
proof (induction env fs source maxDepth maxSize dirPath currentDepth st rule: crawlDirectory.induct)
  case (1 env fs source maxDepth maxSize dirPath currentDepth st)
  note pf = "1.prems"
  let ?step = "crawl_entry env fs source maxSize
                    (\<lambda>p s. crawlDirectory env fs source maxDepth maxSize p (currentDepth + 1) s)
                    dirPath"
  show ?case
  proof (cases "currentDepth \<ge> maxDepth")
    case True
    then show ?thesis by (subst crawlDirectory.simps) (simp add: refl)
  next
    case False
    show ?thesis
    proof (cases "readdir fs dirPath")
      case (Inl e)
      with False show ?thesis by (subst crawlDirectory.simps) (simp add: err)
    next
      case (Inr entries)
      have rec: "R s (crawlDirectory env fs source maxDepth maxSize p (currentDepth + 1) s)" for p s
        using "1.IH" [OF False Inr pf] .
      have "R st (snd (crawl_entries ?step entries st))"
      proof (rule crawl_entries_preserves [where R = R])
        show "R s s" for s by (rule refl)
        show "R a c" if "R a b" "R b c" for a b c using that by (rule trans)
        show "R s (snd (?step entry s))" for entry s
        proof (rule crawl_entry_preserves [where R = R])
          show "R s s" for s by (rule refl)
          show "R s (skip s)" for s by (rule skip)
          show "R s (process_file env fs source maxSize p s)" for p s by (rule pf)
          show "R s (crawlDirectory env fs source maxDepth maxSize p (currentDepth + 1) s)" for p s
            by (rule rec)
        qed
      qed
      moreover obtain r st' where c: "crawl_entries ?step entries st = (r, st')"
        by (cases "crawl_entries ?step entries st") auto
      ultimately have 1: "R st st'" by simp
      have 2: "R st' (directory_error dirPath e st')" for e by (rule err)
      have "crawlDirectory env fs source maxDepth maxSize dirPath currentDepth st =
              (case r of None \<Rightarrow> st' | Some e \<Rightarrow> directory_error dirPath e st')"
        using False Inr c by (subst crawlDirectory.simps) (simp split: option.splits)
      with 1 2 show ?thesis by (cases r) (auto intro: trans)
    qed
  qed
qed

lemma crawl_entry_fst:
  "fst (crawl_entry env fs source maxSize recurse dirPath entry st) =
     (case shouldProcessPath env (path_relative env (root_path source) (path_join env dirPath (fst entry)))
             (s_filters source) of Inl e \<Rightarrow> Some e | Inr ok \<Rightarrow> None)"
  by (auto simp: crawl_entry_def Let_def split: sum.splits entry_kind.splits)

lemma crawl_entry_transformer:
  assumes id: "P (\<lambda>s. s)"
    and skip: "P skip"
    and pfile: "\<And>p. P (process_file env fs source maxSize p)"
    and rec: "\<And>p. P (recurse p)"
  shows "P (\<lambda>st. snd (crawl_entry env fs source maxSize recurse dirPath entry st))"
proof -
  let ?full = "path_join env dirPath (fst entry)"
  let ?ok = "shouldProcessPath env (path_relative env (root_path source) ?full) (s_filters source)"
  have eq: "(\<lambda>st. snd (crawl_entry env fs source maxSize recurse dirPath entry st)) =
        (case ?ok of
           Inl e \<Rightarrow> (\<lambda>s. s)
         | Inr ok \<Rightarrow> if \<not> ok then skip
                     else (case snd entry of
                             directory_entry \<Rightarrow> recurse ?full
                           | file_entry \<Rightarrow> process_file env fs source maxSize ?full
                           | other_entry \<Rightarrow> (\<lambda>s. s)))"
    by (rule ext) (auto simp: crawl_entry_def Let_def split: sum.splits entry_kind.splits)
  show ?thesis
    unfolding eq by (auto split: sum.splits entry_kind.splits intro: id skip pfile rec)
qed

lemma crawl_entries_transformer:
  assumes id: "P (\<lambda>s. s)"
    and comp: "\<And>F G. P F \<Longrightarrow> P G \<Longrightarrow> P (\<lambda>s. G (F s))"
    and flag: "\<And>entry s s'. fst (step entry s) = fst (step entry s')"
    and step: "\<And>entry. P (\<lambda>s. snd (step entry s))"
  shows "P (\<lambda>st. snd (crawl_entries step entries st))
         \<and> (\<forall>s s'. fst (crawl_entries step entries s) = fst (crawl_entries step entries s'))"
proof (induction entries)
  case Nil
  then show ?case by (simp add: id)
next
  case (Cons entry entries)
  obtain r where r: "\<And>s. fst (step entry s) = r"
    using flag by blast
  show ?case
  proof (cases r)
    case None
    have eq: "crawl_entries step (entry # entries) s = crawl_entries step entries (snd (step entry s))" for s
      using r [of s] None by (cases "step entry s") auto
    have "P (\<lambda>s. snd (crawl_entries step entries (snd (step entry s))))"
      by (rule comp [OF step [of entry]]) (use Cons in blast)
    moreover have "fst (crawl_entries step entries (snd (step entry s)))
                 = fst (crawl_entries step entries (snd (step entry s')))" for s s'
      using Cons by blast
    ultimately show ?thesis unfolding eq by blast
  next
    case (Some e)
    have eq: "crawl_entries step (entry # entries) s = (Some e, snd (step entry s))" for s
      using r [of s] Some by (cases "step entry s") auto
    show ?thesis unfolding eq using step [of entry] by simp
  qed
qed

lemma crawlDirectory_transformer:
  assumes id: "P (\<lambda>s. s)"
    and comp: "\<And>F G. P F \<Longrightarrow> P G \<Longrightarrow> P (\<lambda>s. G (F s))"
    and skip: "P skip"
    and err: "\<And>d e. P (directory_error d e)"
    and pfile: "\<And>p. P (process_file env fs source maxSize p)"
  shows "P (crawlDirectory env fs source maxDepth maxSize dirPath currentDepth)"
proof -
  fix st :: crawl_state
  from pfile show ?thesis
proof (induction env fs source maxDepth maxSize dirPath currentDepth st
    rule: crawlDirectory.induct)
  case (1 env fs source maxDepth maxSize dirPath currentDepth st)
  note pf = "1.prems"
  let ?rec = "\<lambda>p s. crawlDirectory env fs source maxDepth maxSize p (currentDepth + 1) s"
  let ?step = "crawl_entry env fs source maxSize ?rec dirPath"
  show ?case
  proof (cases "currentDepth \<ge> maxDepth")
    case True
    then have "crawlDirectory env fs source maxDepth maxSize dirPath currentDepth = (\<lambda>s. s)"
      by (intro ext) (subst crawlDirectory.simps, simp)
    then show ?thesis by (simp add: id)
  next
    case False
    show ?thesis
    proof (cases "readdir fs dirPath")
      case (Inl e)
      with False have "crawlDirectory env fs source maxDepth maxSize dirPath currentDepth
          = directory_error dirPath e"
        by (intro ext) (subst crawlDirectory.simps, simp)
      then show ?thesis by (simp add: err)
    next
      case (Inr entries)
      have rec: "P (crawlDirectory env fs source maxDepth maxSize p (currentDepth + 1))" for p
        using "1.IH" [OF False Inr pf] .
      have st: "P (\<lambda>s. snd (?step entry s))" for entry
      proof (rule crawl_entry_transformer [where P = P])
        show "P (\<lambda>s. s)" by (rule id)
        show "P skip" by (rule skip)
        show "P (process_file env fs source maxSize p)" for p by (rule pf)
        show "P (crawlDirectory env fs source maxDepth maxSize p (currentDepth + 1))" for p
          by (rule rec)
      qed
      have fl: "fst (?step entry s) = fst (?step entry s')" for entry s s'
        by (simp add: crawl_entry_fst)
      have TF: "P (\<lambda>st. snd (crawl_entries ?step entries st))
         \<and> (\<forall>s s'. fst (crawl_entries ?step entries s) = fst (crawl_entries ?step entries s'))"
      proof (rule crawl_entries_transformer [where P = P and step = ?step])
        show "P (\<lambda>s. s)" by (rule id)
        show "P (\<lambda>s. G (F s))" if "P F" "P G" for F G using that by (rule comp)
        show "fst (?step entry s) = fst (?step entry s')" for entry s s' by (rule fl)
        show "P (\<lambda>s. snd (?step entry s))" for entry by (rule st)
      qed
      then have T: "P (\<lambda>st. snd (crawl_entries ?step entries st))"
        and F: "\<And>s s'. fst (crawl_entries ?step entries s) = fst (crawl_entries ?step entries s')"
        by blast+
      obtain r where r: "\<And>s. fst (crawl_entries ?step entries s) = r" using F by blast
      have "crawlDirectory env fs source maxDepth maxSize dirPath currentDepth =
          (\<lambda>s. (case r of None \<Rightarrow> (\<lambda>x. x) | Some e \<Rightarrow> directory_error dirPath e)
                 (snd (crawl_entries ?step entries s)))"
      proof (rule ext)
        fix s
        show "crawlDirectory env fs source maxDepth maxSize dirPath currentDepth s =
          (case r of None \<Rightarrow> (\<lambda>x. x) | Some e \<Rightarrow> directory_error dirPath e)
                 (snd (crawl_entries ?step entries s))"
          using False Inr r [of s]
          by (subst crawlDirectory.simps) (cases "crawl_entries ?step entries s"; cases r; simp)
      qed
      moreover have "P (\<lambda>s. (case r of None \<Rightarrow> (\<lambda>x. x) | Some e \<Rightarrow> directory_error dirPath e)
                 (snd (crawl_entries ?step entries s)))"
        by (rule comp [OF T]) (cases r; simp add: id err)
      ultimately show ?thesis by simp
    qed
  qed
qed
qed

lemma process_file_candidate:
  "candidate_file env fs maxSize p \<Longrightarrow>
   process_file env fs source maxSize p (r, w) =
     (r\<lparr>documentsFound := Suc (documentsFound r),
        errors := errors r @ [''Error processing file '' @ p @ '': '' @ require_not_defined env],
        documentsSkipped := Suc (documentsSkipped r)\<rparr>, w)"
  by (auto simp: candidate_file_def process_file_def file_error_def split: sum.splits)

lemma process_file_walk_keeps: "walk_keeps s (process_file env fs source maxSize p s)"
  by (cases s) (auto simp: walk_keeps_def process_file_def skip_def file_error_def split: sum.splits)

lemma crawlDirectory_walk_keeps:
  "walk_keeps st (crawlDirectory env fs source maxDepth maxSize dirPath currentDepth st)"
proof (rule crawlDirectory_preserves [where R = walk_keeps])
  show "walk_keeps s s" for s by (simp add: walk_keeps_def)
  show "walk_keeps a c" if "walk_keeps a b" "walk_keeps b c" for a b c
    using that by (simp add: walk_keeps_def)
  show "walk_keeps s (skip s)" for s by (cases s) (simp add: walk_keeps_def skip_def)
  show "walk_keeps s (process_file env fs source maxSize p s)" for p s
    by (rule process_file_walk_keeps)
  show "walk_keeps s (directory_error d e s)" for d e s
    by (cases s) (simp add: walk_keeps_def directory_error_def)
qed

lemma result_only_comp:
  assumes F: "result_only F" and G: "result_only G"
  shows "result_only (\<lambda>s. G (F s))"
proof -
  have f: "F (r, w) = (fst (F (r, w')), w)" for r w w'
    using F unfolding result_only_def by (metis prod.collapse)
  have g: "G (r, w) = (fst (G (r, w')), w)" for r w w'
    using G unfolding result_only_def by (metis prod.collapse)
  have "G (F (r, w)) = (fst (G (fst (F (r, w')), w')), w)" for r w w'
    by (subst f [of r w w'], subst g [of _ w w']) simp
  then show ?thesis unfolding result_only_def by (metis fst_conv snd_conv)
qed

lemma process_file_result_only: "result_only (process_file env fs source maxSize p)"
  unfolding result_only_def process_file_def
  by (auto simp: skip_def file_error_def split: sum.splits)

lemma crawlDirectory_result_only:
  "result_only (crawlDirectory env fs source maxDepth maxSize dirPath currentDepth)"
proof (rule crawlDirectory_transformer [where P = result_only])
  show "result_only (\<lambda>s. s)" by (simp add: result_only_def)
  show "result_only (\<lambda>s. G (F s))" if "result_only F" "result_only G" for F G
    using that by (rule result_only_comp)
  show "result_only skip" by (simp add: result_only_def skip_def)
  show "result_only (directory_error d e)" for d e by (simp add: result_only_def directory_error_def)
  show "result_only (process_file env fs source maxSize p)" for p by (rule process_file_result_only)
qed

lemma crawl_by_type_Inl_iff:
  "(\<exists>e. crawl_by_type env fs source st = Inl e) \<longleftrightarrow> run_aborts fs source"
  by (auto simp: crawl_by_type_def crawlLocalFiles_def run_aborts_def Let_def split: sum.splits)

lemma crawl_by_type_Inl_any:
  "crawl_by_type env fs source st = Inl e \<Longrightarrow> crawl_by_type env fs source st' = Inl e"
  by (auto simp: crawl_by_type_def crawlLocalFiles_def Let_def split: sum.splits if_splits)

lemma crawl_by_type_Inr:
  assumes "crawl_by_type env fs source (r, w) = Inr (r', w')"
  shows "w' = w" and "walk_keeps (r, w) (r', w')"
    and "crawl_by_type env fs source (r, w2) = Inr (r', w2)"
proof -
  let ?walk = "crawlDirectory env fs source
      (number_or (case s_filters source of None \<Rightarrow> None | Some f \<Rightarrow> f_maxDepth f) 10)
      (number_or (case s_filters source of None \<Rightarrow> None | Some f \<Rightarrow> f_maxSize f) (10 * 1024 * 1024))
      (root_path source) 0"
  from assms have eq: "?walk (r, w) = (r', w')"
    and ok: "crawl_by_type env fs source (r, w2) = Inr (?walk (r, w2))"
    by (auto simp: crawl_by_type_def crawlLocalFiles_def Let_def split: sum.splits if_splits)
  have ro: "result_only ?walk" by (rule crawlDirectory_result_only)
  from ro eq show "w' = w" unfolding result_only_def by (metis snd_conv)
  from crawlDirectory_walk_keeps [of "(r, w)" env fs source] eq
  show "walk_keeps (r, w) (r', w')" by metis
  from ro eq have "?walk (r, w2) = (r', w2)"
    unfolding result_only_def by (metis fst_conv prod.collapse)
  with ok show "crawl_by_type env fs source (r, w2) = Inr (r', w2)" by simp
qed

lemma st_sourceId_status_row [simp]: "st_sourceId (status_row s) = st_sourceId s"
  by (simp add: status_row_def)

lemma st_status_status_row [simp]: "st_status (status_row s) = st_status s"
  by (simp add: status_row_def)

lemma find_False [simp]: "find (\<lambda>x. False) xs = None"
  by (simp add: find_None_iff)

lemma st_sourceId_status_of [simp]: "st_sourceId (status_of source s t e r d) = s_id source"
  by (simp add: status_of_def)

lemma st_status_status_of [simp]: "st_status (status_of source s t e r d) = s"
  by (simp add: status_of_def)

lemma getSourceStatus_insert_status:
  "getSourceStatus (st_sourceId s) (insert_status s st) = Some (status_row s)"
  by (simp add: getSourceStatus_def insert_status_def find_filter_append)

lemma insert_status_simps [simp]:
  "status_log (insert_status s st) = status_log st @ [status_row s]"
  "documents (insert_status s st) = documents st"
  "sources (insert_status s st) = sources st"
  "getSource i (insert_status s st) = getSource i st"
  by (simp_all add: insert_status_def getSource_def)

lemma saveSource_simps [simp]:
  "status_log (saveSource src st) = status_log st"
  "documents (saveSource src st) = documents st"
  "getSourceStatus i (saveSource src st) = getSourceStatus i st"
  by (simp_all add: saveSource_def getSourceStatus_def)

lemma getSource_saveSource: "getSource (s_id src) (saveSource src st) \<noteq> None"
proof -
  have "source_row src \<in> set (sources (saveSource src st))" by (simp add: saveSource_def)
  moreover have "s_id (source_row src) = s_id src" by (simp add: source_row_def)
  ultimately show ?thesis unfolding getSource_def find_None_iff by blast
qed

lemma updateSourceStatus_registered:
  "registered source st \<Longrightarrow> st_sourceId s = s_id source \<Longrightarrow>
   updateSourceStatus s st = Inr (insert_status s st)"
  by (auto simp: registered_def updateSourceStatus_def split: option.splits)

lemma updateSourceStatus_not_registered:
  "\<not> registered source st \<Longrightarrow> st_sourceId s = s_id source \<Longrightarrow>
   updateSourceStatus s st = Inl ''FOREIGN KEY constraint failed''"
  by (auto simp: registered_def updateSourceStatus_def split: option.splits)


lemma crawlSource_registered:
  assumes reg: "registered source (store w)"
  shows "\<exists>w' first last.
      crawlSource env fs clk source w = (Inr (run_result env fs source), w')
      \<and> documents (store w') = documents (store w)
      \<and> registered source (store w')
      \<and> status_log (store w') = status_log (store w) @ [first, last]
      \<and> st_sourceId first = s_id source \<and> st_status first = crawling
      \<and> st_sourceId last = s_id source
      \<and> st_status last = (if run_aborts fs source then error else success)
      \<and> getSourceStatus (s_id source) (store w') = Some last"
proof -
  let ?first = "status_of source crawling (clk (ticks w + 1)) None empty_result None"
  let ?st0 = "insert_status ?first (store w)"
  let ?w1 = "w\<lparr>ticks := ticks w + 2, store := ?st0\<rparr>"
  let ?W = "\<lparr>store = empty_storage, ticks = 0\<rparr>"
  have u0: "updateSourceStatus ?first (store w) = Inr ?st0"
    using reg by (simp add: updateSourceStatus_registered)
  have reg1: "registered source ?st0" using reg by (simp add: registered_def)
  show ?thesis
  proof (cases "crawl_by_type env fs source (empty_result, ?w1)")
    case (Inl e)
    then have a: "run_aborts fs source" using crawl_by_type_Inl_iff by blast
    from crawl_by_type_Inl_any [OF Inl] have rr: "run_result env fs source = empty_result\<lparr>errors := [e]\<rparr>"
      by (simp add: run_result_def)
    let ?res = "empty_result\<lparr>errors := [e]\<rparr>"
    let ?last = "status_of source error (clk (ticks w + 2)) (Some e) ?res
                   (Some (clk (ticks w + 2 + 1) - clk (ticks w)))"
    have u1: "updateSourceStatus ?last ?st0 = Inr (insert_status ?last ?st0)"
      using reg1 by (simp add: updateSourceStatus_registered)
    have t: "crawl_try env fs clk source (clk (ticks w)) (empty_result, ?w1) = (Some e, (empty_result, ?w1))"
      using Inl by (simp add: crawl_try_def)
    have c: "crawlSource env fs clk source w =
        (Inr ?res, ?w1\<lparr>store := insert_status ?last ?st0, ticks := ticks w + 2 + 2\<rparr>)"
      using u0 t u1 by (simp add: crawlSource_def Let_def empty_result_def)
    show ?thesis
      unfolding c rr
      using a reg getSourceStatus_insert_status [of ?last ?st0]
      by (intro exI [of _ "?w1\<lparr>store := insert_status ?last ?st0, ticks := ticks w + 2 + 2\<rparr>"]
            exI [of _ "status_row ?first"] exI [of _ "status_row ?last"])
         (simp add: registered_def)
  next
    case (Inr st')
    then have n: "\<not> run_aborts fs source"
      using crawl_by_type_Inl_iff by (metis sum.distinct(1))
    obtain r' w2 where st': "st' = (r', w2)" by (cases st') auto
    note facts = crawl_by_type_Inr [OF Inr [unfolded st']]
    from facts(1) have w2: "w2 = ?w1" .
    from facts(3) [of ?W] have rr: "run_result env fs source = r'"
      by (simp add: run_result_def)
    let ?last = "status_of source success (clk (ticks w + 2)) None r'
                   (Some (clk (ticks w + 2 + 1) - clk (ticks w)))"
    let ?src = "source\<lparr>s_lastCrawled := Some (clk (ticks w + 2 + 2))\<rparr>"
    have u1: "updateSourceStatus ?last ?st0 = Inr (insert_status ?last ?st0)"
      using reg1 by (simp add: updateSourceStatus_registered)
    let ?w' = "?w1\<lparr>store := saveSource ?src (insert_status ?last ?st0), ticks := ticks w + 2 + 3\<rparr>"
    have t: "crawl_try env fs clk source (clk (ticks w)) (empty_result, ?w1) = (None, (r', ?w'))"
      using Inr u1 by (simp add: crawl_try_def st' w2)
    have c: "crawlSource env fs clk source w = (Inr r', ?w')"
      using u0 t by (simp add: crawlSource_def Let_def)
    have g: "getSource (s_id source) (saveSource ?src st) \<noteq> None" for st
      using getSource_saveSource [of ?src st] by simp
    show ?thesis
      unfolding c rr
      using n g getSourceStatus_insert_status [of ?last ?st0]
      by (intro exI [of _ ?w'] exI [of _ "status_row ?first"] exI [of _ "status_row ?last"])
         (simp add: registered_def)
  qed
qed

lemma crawlSource_not_registered:
  assumes "\<not> registered source (store w)"
  shows "crawlSource env fs clk source w = (Inl ''FOREIGN KEY constraint failed'', w\<lparr>ticks := ticks w + 2\<rparr>)"
  using assms by (simp add: crawlSource_def Let_def updateSourceStatus_not_registered)

text \<open>
  Claim C1. The parser derives the id of a document as the SHA-256 hex digest of
  \<open>sourceId:path\<close>: the same value on every derivation, whatever the file holds and
  whenever it is parsed. The crawler derives no id. For every candidate file the
  evaluation of line 161 throws before a digest is computed: the file is counted as
  found and as skipped, the error is recorded, and the store is neither read nor
  written. So there is no id of the skip check that could equal the id of the parser.
\<close>

theorem crawler_derives_no_document_id:
  "(candidate_file env fs maxSize fullPath \<longrightarrow>
      process_file env fs source maxSize fullPath (result, w) =
        (result\<lparr>documentsFound := Suc (documentsFound result),
                errors := errors result
                  @ [''Error processing file '' @ fullPath @ '': '' @ require_not_defined env],
                documentsSkipped := Suc (documentsSkipped result)\<rparr>, w))
   \<and> (\<forall>doc. parseFile env fs now fullPath (s_id source) = Some doc \<longrightarrow>
         d_id doc = sha256_hex env (s_id source @ '':'' @ fullPath))
   \<and> (\<forall>doc doc'. parseFile env fs now fullPath sourceId = Some doc
         \<and> parseFile env fs' now' fullPath sourceId = Some doc' \<longrightarrow> d_id doc = d_id doc')"
proof (intro conjI allI impI)
  assume "candidate_file env fs maxSize fullPath"
  then show "process_file env fs source maxSize fullPath (result, w) =
        (result\<lparr>documentsFound := Suc (documentsFound result),
                errors := errors result
                  @ [''Error processing file '' @ fullPath @ '': '' @ require_not_defined env],
                documentsSkipped := Suc (documentsSkipped result)\<rparr>, w)"
    by (rule process_file_candidate)
next
  fix doc
  assume "parseFile env fs now fullPath (s_id source) = Some doc"
  then show "d_id doc = sha256_hex env (s_id source @ '':'' @ fullPath)"
    using parseFile_Some by blast
next
  fix doc doc'
  assume "parseFile env fs now fullPath sourceId = Some doc
         \<and> parseFile env fs' now' fullPath sourceId = Some doc'"
  then show "d_id doc = d_id doc'"
    using parseFile_Some [of env fs now fullPath sourceId doc]
      parseFile_Some [of env fs' now' fullPath sourceId doc'] by simp
qed

theorem crawler_derives_no_document_id_witness:
  "candidate_file example_env docs_fs 10485760 ''/docs/guide.md''
   \<and> process_file example_env docs_fs (example_source ''s1'') 10485760 ''/docs/guide.md''
        (empty_result, new_world (example_store
           [example_doc ''sha256:s1:/docs/guide.md'' ''s1'' ''Guide'' ''text'' None 500]))
       = (\<lparr>documentsFound = 1, documentsProcessed = 0, documentsSkipped = 1,
           errors = [''Error processing file /docs/guide.md: require is not defined'']\<rparr>,
          new_world (example_store
           [example_doc ''sha256:s1:/docs/guide.md'' ''s1'' ''Guide'' ''text'' None 500]))
   \<and> map_option d_id (parseFile example_env docs_fs 1000 ''/docs/guide.md'' ''s1'')
       = Some ''sha256:s1:/docs/guide.md''
   \<and> map_option d_id (parseFile example_env (small_fs 5000) 7 ''/docs/guide.md'' ''s1'')
       = Some ''sha256:s1:/docs/guide.md''"
proof -
  have w: ?thesis by code_simp
  from crawler_derives_no_document_id [where env = example_env and fs = docs_fs
      and maxSize = 10485760 and fullPath = "''/docs/guide.md''"
      and source = "example_source ''s1''"] w
  show ?thesis by blast
qed

text \<open>
  Claim C4. Every run of \<^verbatim>\<open>crawlSource\<close> on a source that has a row in the store returns
  and writes exactly two status rows for its source: first \<open>crawling\<close>, at the start,
  then one terminal row, which is also the row the store holds afterwards and the
  status listed for the source. The terminal status is \<open>error\<close> exactly when the run was
  aborted by a fatal condition (the source type is not implemented, or the root path
  cannot be accessed or is not a directory) and \<open>success\<close> otherwise: the errors collected
  for files and directories during the walk have no part in it. A source that has no
  status row yet, one that never ran, is listed as \<open>idle\<close>.
\<close>

theorem crawlSource_status_transitions:
  "registered source (store w) \<longrightarrow>
   (\<exists>result w' first last.
      crawlSource env fs clk source w = (Inr result, w')
      \<and> status_log (store w') = status_log (store w) @ [first, last]
      \<and> st_sourceId first = s_id source \<and> st_status first = crawling
      \<and> st_sourceId last = s_id source
      \<and> st_status last = (if run_aborts fs source then error else success)
      \<and> getSourceStatus (s_id source) (store w') = Some last
      \<and> listed_status (s_id source) (store w') = st_status last
      \<and> (getSourceStatus (s_id source) (store w) = None
            \<longrightarrow> listed_status (s_id source) (store w) = idle))"
proof
  assume "registered source (store w)"
  from crawlSource_registered [OF this, of env fs clk]
  obtain w' first last where
    "crawlSource env fs clk source w = (Inr (run_result env fs source), w')"
    "status_log (store w') = status_log (store w) @ [first, last]"
    "st_sourceId first = s_id source" "st_status first = crawling"
    "st_sourceId last = s_id source"
    "st_status last = (if run_aborts fs source then error else success)"
    "getSourceStatus (s_id source) (store w') = Some last"
    by blast
  then show "\<exists>result w' first last.
      crawlSource env fs clk source w = (Inr result, w')
      \<and> status_log (store w') = status_log (store w) @ [first, last]
      \<and> st_sourceId first = s_id source \<and> st_status first = crawling
      \<and> st_sourceId last = s_id source
      \<and> st_status last = (if run_aborts fs source then error else success)
      \<and> getSourceStatus (s_id source) (store w') = Some last
      \<and> listed_status (s_id source) (store w') = st_status last
      \<and> (getSourceStatus (s_id source) (store w) = None
            \<longrightarrow> listed_status (s_id source) (store w) = idle)"
    by (intro exI [of _ "run_result env fs source"] exI [of _ w'] exI [of _ first] exI [of _ last])
       (simp add: listed_status_def)
qed

theorem crawlSource_status_transitions_witness:
  "registered (example_source ''s1'') (store (new_world (example_store [])))
   \<and> listed_status ''s1'' (example_store []) = idle
   \<and> \<not> run_aborts docs_fs (example_source ''s1'')
   \<and> map st_status (status_log (store (snd (crawlSource example_env docs_fs example_clock
         (example_source ''s1'') (new_world (example_store [])))))) = [crawling, success]
   \<and> map_sum id (\<lambda>r. length (errors r)) (fst (crawlSource example_env docs_fs example_clock
         (example_source ''s1'') (new_world (example_store [])))) = Inr 8
   \<and> listed_status ''s1'' (store (snd (crawlSource example_env docs_fs example_clock
         (example_source ''s1'') (new_world (example_store []))))) = success
   \<and> run_aborts docs_fs ((example_source ''s1'')\<lparr>s_type := ''git''\<rparr>)
   \<and> map st_status (status_log (store (snd (crawlSource example_env docs_fs example_clock
         ((example_source ''s1'')\<lparr>s_type := ''git''\<rparr>) (new_world (example_store [])))))) = [crawling, error]
   \<and> run_aborts docs_fs ((example_source ''s1'')\<lparr>s_url := ''file:///docs/guide.md''\<rparr>)
   \<and> map st_status (status_log (store (snd (crawlSource example_env docs_fs example_clock
         ((example_source ''s1'')\<lparr>s_url := ''file:///docs/guide.md''\<rparr>) (new_world (example_store [])))))) = [crawling, error]"
proof -
  have w: ?thesis by code_simp
  from crawlSource_status_transitions [where source = "example_source ''s1''"
      and w = "new_world (example_store [])" and env = example_env and fs = docs_fs
      and clk = example_clock] w show ?thesis by blast
qed




section \<open>Properties of the filters\<close>

lemma rx_match_star:
  "rx_match [RStar] s \<longleftrightarrow> list_all (\<lambda>c. \<not> line_terminator c) s"
  by (induction s) auto

lemma rx_match_star_star:
  "rx_match [RStar, RStar] s \<longleftrightarrow> list_all (\<lambda>c. \<not> line_terminator c) s"
  by (induction s) (auto simp: rx_match_star)

lemma parse_rx_drafts:
  "parse_rx (glob_regex_source ''drafts/**'') =
     Some [RChar CHR ''d'', RChar CHR ''r'', RChar CHR ''a'', RChar CHR ''f'', RChar CHR ''t'',
           RChar CHR ''s'', RChar CHR ''/'', RStar, RStar]"
  by code_simp

lemma ascii_simps [simp]:
  "ascii []" "ascii (c # cs) \<longleftrightarrow> of_char c < (128 :: nat) \<and> ascii cs"
  "ascii (xs @ ys) \<longleftrightarrow> ascii xs \<and> ascii ys"
  by (simp_all add: ascii_def)

lemma matchGlob_drafts:
  assumes "ascii path"
  shows "matchGlob env (''drafts/'' @ path) ''drafts/**''
           = Inr (list_all (\<lambda>c. \<not> line_terminator c) path)"
proof -
  have "ascii ''drafts/**''" by simp
  moreover have "ascii (''drafts/'' @ path)" using assms by simp
  ultimately show ?thesis
    unfolding matchGlob_def by (simp add: parse_rx_drafts rx_match_star_star)
qed

lemma glob_as_specified_star: "glob_as_specified ''*'' s"
proof -
  have "glob_as_specified ''*'' s
      \<longleftrightarrow> list_ex (\<lambda>k. glob_as_specified [] (drop k s)) [0..<Suc (length s)]"
    by (simp del: upt_Suc)
  also have "\<dots>" unfolding list_ex_iff by (intro bexI [of _ "length s"]) simp_all
  finally show ?thesis .
qed

lemma glob_as_specified_star_star: "glob_as_specified ''**'' s"
proof -
  have "glob_as_specified ''**'' s
      \<longleftrightarrow> list_ex (\<lambda>k. glob_as_specified ''*'' (drop k s)) [0..<Suc (length s)]"
    by (simp del: upt_Suc glob_as_specified.simps
          add: glob_as_specified.simps(2) [of "CHR ''*''" "''*''"])
  also have "\<dots>" unfolding list_ex_iff
    by (intro bexI [of _ 0]) (simp_all add: glob_as_specified_star del: glob_as_specified.simps)
  finally show ?thesis .
qed

lemma glob_as_specified_drafts: "glob_as_specified ''drafts/**'' (''drafts/'' @ s)"
  using glob_as_specified_star_star [of s]
  by (simp del: upt_Suc glob_as_specified.simps
        add: glob_as_specified.simps(2) [where s = "c # cs" for c cs]
             glob_as_specified.simps(2) [of "CHR ''*''" "''*''"])

text \<open>
  Claim C6. The regular expression \<^verbatim>\<open>matchGlob\<close> builds has no \<^verbatim>\<open>s\<close> flag, so the \<^verbatim>\<open>.*\<close> that
  stands for \<^verbatim>\<open>*\<close> does not run over a line feed. A path under \<^verbatim>\<open>drafts/\<close> with a line feed
  in it matches \<^verbatim>\<open>drafts/**\<close> as glob matching is specified, but not in \<^verbatim>\<open>matchGlob\<close>: with
  \<open>exclude = ["drafts/**"]\<close> the filter accepts the path, and the crawler treats the
  file as any other file instead of counting it as rejected.
\<close>

theorem line_feed_bypasses_exclude:
  "ascii u \<and> ascii v \<and> s_filters source = Some f \<and> f_include f = None
     \<and> f_exclude f = Some [''drafts/**'']
     \<and> path_relative env (root_path source) (path_join env dirPath name)
         = ''drafts/'' @ u @ [CHR 0x0A] @ v \<longrightarrow>
   glob_as_specified ''drafts/**'' (''drafts/'' @ u @ [CHR 0x0A] @ v)
   \<and> matchGlob env (''drafts/'' @ u @ [CHR 0x0A] @ v) ''drafts/**'' = Inr False
   \<and> shouldProcessPath env (''drafts/'' @ u @ [CHR 0x0A] @ v) (Some f) = Inr True
   \<and> crawl_entry env fs source maxSize recurse dirPath (name, file_entry) st
       = (None, process_file env fs source maxSize (path_join env dirPath name) st)"
proof (intro impI conjI)
  assume a: "ascii u \<and> ascii v \<and> s_filters source = Some f \<and> f_include f = None
     \<and> f_exclude f = Some [''drafts/**'']
     \<and> path_relative env (root_path source) (path_join env dirPath name)
         = ''drafts/'' @ u @ [CHR 0x0A] @ v"
  show "glob_as_specified ''drafts/**'' (''drafts/'' @ u @ [CHR 0x0A] @ v)"
    by (rule glob_as_specified_drafts)
  from a have "ascii (u @ [CHR 0x0A] @ v)" by simp
  from matchGlob_drafts [OF this, of env]
  show m: "matchGlob env (''drafts/'' @ u @ [CHR 0x0A] @ v) ''drafts/**'' = Inr False"
    by (simp add: line_terminator_def)
  from a m show s: "shouldProcessPath env (''drafts/'' @ u @ [CHR 0x0A] @ v) (Some f) = Inr True"
    by (simp add: shouldProcessPath_def)
  from a s show "crawl_entry env fs source maxSize recurse dirPath (name, file_entry) st
       = (None, process_file env fs source maxSize (path_join env dirPath name) st)"
    by (simp add: crawl_entry_def Let_def)
qed

theorem line_feed_bypasses_exclude_witness:
  "ascii ''a'' \<and> ascii ''b.md''
   \<and> path_relative example_env ''/docs'' (path_join example_env ''/docs/drafts'' (''a'' @ [CHR 0x0A] @ ''b.md''))
       = ''drafts/'' @ ''a'' @ [CHR 0x0A] @ ''b.md''
   \<and> glob_as_specified ''drafts/**'' (''drafts/'' @ ''a'' @ [CHR 0x0A] @ ''b.md'')
   \<and> matchGlob example_env (''drafts/'' @ ''a'' @ [CHR 0x0A] @ ''b.md'') ''drafts/**'' = Inr False
   \<and> matchGlob example_env ''drafts/wip.md'' ''drafts/**'' = Inr True
   \<and> shouldProcessPath example_env (''drafts/'' @ ''a'' @ [CHR 0x0A] @ ''b.md'')
        (Some (example_filters None (Some [''drafts/**'']))) = Inr True
   \<and> shouldProcessPath example_env ''drafts/wip.md''
        (Some (example_filters None (Some [''drafts/**'']))) = Inr False
   \<and> fst (crawlSource example_env linefeed_fs example_clock
        ((example_source ''s1'')\<lparr>s_filters := Some (example_filters None (Some [''drafts/**'']))\<rparr>)
        (new_world (example_store [])))
       = Inr \<lparr>documentsFound = 1, documentsProcessed = 0, documentsSkipped = 2,
              errors = [''Error processing file /docs/drafts/a'' @ [CHR 0x0A]
                          @ ''b.md: require is not defined'']\<rparr>"
proof -
  have w: ?thesis by code_simp
  from line_feed_bypasses_exclude [where u = "''a''" and v = "''b.md''" and env = example_env
      and source = "(example_source ''s1'')\<lparr>s_filters := Some (example_filters None (Some [''drafts/**'']))\<rparr>"
      and f = "example_filters None (Some [''drafts/**''])"
      and dirPath = "''/docs/drafts''" and name = "''a'' @ [CHR 0x0A] @ ''b.md''"] w
  show ?thesis by blast
qed

end
